theory Spec2Isabelle
  imports Complex_Main "HOL-Library.Sublist"
begin

section \<open>Strings\<close>

text \<open>
  Python strings are modelled as \<^typ>\<open>string\<close>. URLs, file names and platform markers are
  ASCII; the case conversions below act on the ASCII letters and leave every other
  character alone.
\<close>

definition backslash :: char where
  "backslash = CHR 0x5C"

definition dquote :: char where
  "dquote = CHR 0x22"

definition lower_char :: "char \<Rightarrow> char" where
  "lower_char c =
     (let n = (of_char c :: nat)
      in if 65 \<le> n \<and> n \<le> 90 then char_of (n + 32) else c)"

definition upper_char :: "char \<Rightarrow> char" where
  "upper_char c =
     (let n = (of_char c :: nat)
      in if 97 \<le> n \<and> n \<le> 122 then char_of (n - 32) else c)"

text \<open>\<^verbatim>\<open>s.lower()\<close> and \<^verbatim>\<open>s.upper()\<close>.\<close>

definition lower :: "string \<Rightarrow> string" where
  "lower s = map lower_char s"

definition upper :: "string \<Rightarrow> string" where
  "upper s = map upper_char s"

text \<open>\<^verbatim>\<open>sub in s\<close> on strings: \<open>sub\<close> occurs in \<open>s\<close> as a contiguous substring.\<close>

fun contains :: "string \<Rightarrow> string \<Rightarrow> bool" where
  "contains sub [] = (sub = [])"
| "contains sub (c # cs) = (prefix sub (c # cs) \<or> contains sub cs)"

section \<open>File name sanitisation (download\_yt.py, safe\_filename)\<close>

text \<open>
  \<^verbatim>\<open>re.sub(pattern, repl, s)\<close> for a pattern that is a single character class: the
  string is scanned from the left, every character of the class is a match and is replaced
  by \<open>repl\<close>, every other character is copied.
\<close>

fun re_sub_class :: "char list \<Rightarrow> string \<Rightarrow> string \<Rightarrow> string" where
  "re_sub_class cls repl [] = []"
| "re_sub_class cls repl (c # cs) =
     (if c \<in> set cls then repl @ re_sub_class cls repl cs
      else c # re_sub_class cls repl cs)"

text \<open>The class \<^verbatim>\<open>[<>:"/\\|?*]\<close> of the source's pattern.\<close>

definition unsafe_chars :: "char list" where
  "unsafe_chars =
     [CHR ''<'', CHR ''>'', CHR '':'', dquote, CHR ''/'', backslash,
      CHR ''|'', CHR ''?'', CHR ''*'']"

definition safe_filename :: "string \<Rightarrow> string" where
  "safe_filename filename = re_sub_class unsafe_chars ''_'' filename"

section \<open>Paths (posixpath)\<close>

text \<open>\<^verbatim>\<open>p.rfind(c)\<close>: the index of the last occurrence of \<open>c\<close>, or \<open>-1\<close>.\<close>

fun rfind_from :: "char \<Rightarrow> string \<Rightarrow> int \<Rightarrow> int \<Rightarrow> int" where
  "rfind_from c [] i found = found"
| "rfind_from c (x # xs) i found = rfind_from c xs (i + 1) (if x = c then i else found)"

definition rfind :: "char \<Rightarrow> string \<Rightarrow> int" where
  "rfind c p = rfind_from c p 0 (-1)"

text \<open>
  \<^verbatim>\<open>os.path.splitext(p)\<close>: the extension starts at the last dot of the last path
  component, unless that component has only dots before it.
\<close>

definition splitext :: "string \<Rightarrow> string \<times> string" where
  "splitext p =
     (let sepIndex = rfind CHR ''/'' p;
          dotIndex = rfind CHR ''.'' p
      in if dotIndex > sepIndex
            \<and> list_ex (\<lambda>c. c \<noteq> CHR ''.'')
                 (take (nat (dotIndex - (sepIndex + 1))) (drop (nat (sepIndex + 1)) p))
         then (take (nat dotIndex) p, drop (nat dotIndex) p)
         else (p, []))"

text \<open>\<^verbatim>\<open>os.path.join(a, b)\<close> and \<^verbatim>\<open>os.path.basename(p)\<close>.\<close>

definition path_join :: "string \<Rightarrow> string \<Rightarrow> string" where
  "path_join a b =
     (if prefix ''/'' b then b
      else if a = [] \<or> suffix ''/'' a then a @ b
      else a @ ''/'' @ b)"

definition basename :: "string \<Rightarrow> string" where
  "basename p = drop (nat (rfind CHR ''/'' p + 1)) p"

section \<open>Constants (app.py)\<close>

definition DOWNLOAD_FOLDER :: string where
  "DOWNLOAD_FOLDER = ''download''"

definition MAX_FILE_SIZE_MB :: int where
  "MAX_FILE_SIZE_MB = 50"

definition SUPPORTED_PLATFORMS :: "string list" where
  "SUPPORTED_PLATFORMS = [''youtube'', ''youtu.be'']"

definition COMING_SOON_PLATFORMS :: "string list" where
  "COMING_SOON_PLATFORMS = [''vk.com'', ''soundcloud.com'', ''spotify.com'']"

section \<open>Platform classification (app.py)\<close>

definition is_supported_platform :: "string \<Rightarrow> bool" where
  "is_supported_platform url = list_ex (\<lambda>platform. contains platform (lower url)) SUPPORTED_PLATFORMS"

text \<open>The label the source returns for an unrecognised URL, as its UTF-8 bytes.\<close>

definition unknown_platform :: string where
  "unknown_platform =
     [CHR 0xD0, CHR 0x9D, CHR 0xD0, CHR 0xB5, CHR 0xD0, CHR 0xB8, CHR 0xD0, CHR 0xB7,
      CHR 0xD0, CHR 0xB2, CHR 0xD0, CHR 0xB5, CHR 0xD1, CHR 0x81, CHR 0xD1, CHR 0x82,
      CHR 0xD0, CHR 0xBD, CHR 0xD0, CHR 0xB0, CHR 0xD1, CHR 0x8F, CHR 0x20, CHR 0xD0,
      CHR 0xBF, CHR 0xD0, CHR 0xBB, CHR 0xD0, CHR 0xB0, CHR 0xD1, CHR 0x82, CHR 0xD1,
      CHR 0x84, CHR 0xD0, CHR 0xBE, CHR 0xD1, CHR 0x80, CHR 0xD0, CHR 0xBC, CHR 0xD0,
      CHR 0xB0]"

text \<open>
  The two loops of \<open>get_platform_from_url\<close> return at the first marker found, in list
  order.
\<close>

definition get_platform_from_url :: "string \<Rightarrow> string" where
  "get_platform_from_url url =
     (case find (\<lambda>platform. contains platform (lower url)) SUPPORTED_PLATFORMS of
        Some platform \<Rightarrow> ''YouTube''
      | None \<Rightarrow>
          (case find (\<lambda>platform. contains platform (lower url)) COMING_SOON_PLATFORMS of
             Some platform \<Rightarrow> upper platform
           | None \<Rightarrow> unknown_platform))"

text \<open>
  \<^verbatim>\<open>any(coming_soon in url.lower() for coming_soon in COMING_SOON_PLATFORMS)\<close>, the test
  both endpoints make on an unsupported URL.
\<close>

definition is_coming_soon :: "string \<Rightarrow> bool" where
  "is_coming_soon url = list_ex (\<lambda>coming_soon. contains coming_soon (lower url)) COMING_SOON_PLATFORMS"

text \<open>
  \<^verbatim>\<open>not url or not url.strip()\<close>: the URL is empty or consists of white space only
  (the ASCII characters \<^verbatim>\<open>str.strip\<close> removes).
\<close>

definition is_space :: "char \<Rightarrow> bool" where
  "is_space c = (let n = (of_char c :: nat) in (9 \<le> n \<and> n \<le> 13) \<or> (28 \<le> n \<and> n \<le> 32))"

definition blank :: "string \<Rightarrow> bool" where
  "blank url = (\<not> list_ex (\<lambda>c. \<not> is_space c) url)"

section \<open>Exceptions and messages\<close>

text \<open>
  The human-readable texts of the source (Russian sentences, some built with f-strings)
  are the constructors of \<open>phrase\<close>, each carrying the values the f-string interpolates.
  \<open>Exception msg\<close> stands for any exception other than the two named ones, with its
  \<^verbatim>\<open>str()\<close>.
\<close>

datatype exn =
    WebSocketDisconnect
  | Exception string
  | HTTPException int phrase
and phrase =
    Url_empty
  | Size_out_of_range int
  | Support_soon string
  | Unsupported_only_youtube
  | Starting_from string
  | Download_complete
  | Download_failed int
  | Error_occurred exn
  | Loading
  | Converting
  | Hook_error exn
  | Fetching_info
  | Start_download string
  | Mp3_not_created
  | Over_limit real int
  | Fetching_thumbnail
  | Thumbnail_saved
  | Thumbnail_failed exn
  | Thumbnail_unavailable
  | Ready
  | Error_text exn
  | Url_required
  | Unsupported_platform
  | File_ready
  | Too_big_or_error int
  | Str_of exn
  | Bad_file_name
  | File_not_found

text \<open>A JSON message is a Python dict: its keys in the order the source writes them.\<close>

datatype jval = Str string | Txt phrase | Num real | Bool bool

type_synonym message = "(string \<times> jval) list"

definition progress_msg :: "real \<Rightarrow> phrase \<Rightarrow> message" where
  "progress_msg p t = [(''progress'', Num p), (''status'', Txt t)]"

definition error_msg :: "phrase \<Rightarrow> message" where
  "error_msg t = [(''error'', Txt t)]"

section \<open>The Job Store (app.py, DownloadManager)\<close>

record job =
  job_url :: string
  job_maxsize :: int
  job_status :: string
  job_progress :: int
  job_created_at :: nat
  job_mp3_path :: "string option"
  job_thumb_path :: "string option"
  job_error :: "phrase option"
  job_updated_at :: "nat option"

text \<open>The keyword arguments of \<open>update_download\<close>.\<close>

datatype kwarg =
    Status string
  | Progress int
  | Mp3_path "string option"
  | Thumb_path "string option"
  | Error phrase

fun set_field :: "kwarg \<Rightarrow> job \<Rightarrow> job" where
  "set_field (Status v) j = j\<lparr>job_status := v\<rparr>"
| "set_field (Progress v) j = j\<lparr>job_progress := v\<rparr>"
| "set_field (Mp3_path v) j = j\<lparr>job_mp3_path := v\<rparr>"
| "set_field (Thumb_path v) j = j\<lparr>job_thumb_path := v\<rparr>"
| "set_field (Error v) j = j\<lparr>job_error := Some v\<rparr>"

section \<open>The world the handlers run in\<close>

text \<open>
  \<open>downloads\<close> is \<^verbatim>\<open>download_manager.downloads\<close>, \<open>active_connections\<close> the keys of the
  dict of that name, \<open>files\<close> the regular files on disk with their sizes in bytes, \<open>now\<close>
  the clock read by \<^verbatim>\<open>datetime.now()\<close>.

  The client's WebSocket is the rest: \<open>ws_accept\<close> is what \<^verbatim>\<open>ws.accept()\<close> raises, if
  anything; \<open>ws_script\<close> gives, for the coming calls of \<^verbatim>\<open>ws.send_json\<close> in order, what
  each raises (\<open>None\<close>: the message is delivered; past the end of the list every message
  is delivered); \<open>ws_sent\<close> is the list of the messages the handler's own coroutine has
  delivered.

  \<open>ws_scheduled\<close> holds the sends that \<open>progress_hook\<close> has handed to the event loop with
  \<^verbatim>\<open>run_coroutine_threadsafe\<close>, each with the number of messages delivered when it was
  scheduled. The handler calls \<^verbatim>\<open>extract_info\<close> synchronously on the loop's own thread, so
  the loop cannot run any of them before the handler next suspends; whether and when it
  does is decided by the scheduling and is no part of the world (see \<open>client_view\<close>).
\<close>

record world =
  downloads :: "string \<rightharpoonup> job"
  active_connections :: "string set"
  files :: "string \<rightharpoonup> nat"
  now :: nat
  ws_accept :: "exn option"
  ws_script :: "exn option list"
  ws_sent :: "message list"
  ws_scheduled :: "(nat \<times> message) list"
  ws_closed :: bool

type_synonym 'a io = "world \<Rightarrow> (exn + 'a) \<times> world"

definition io_return :: "'a \<Rightarrow> 'a io" where
  "io_return x s = (Inr x, s)"

definition io_raise :: "exn \<Rightarrow> 'a io" where
  "io_raise e s = (Inl e, s)"

definition io_bind :: "'a io \<Rightarrow> ('a \<Rightarrow> 'b io) \<Rightarrow> 'b io" where
  "io_bind m f s = (case m s of (Inl e, s') \<Rightarrow> (Inl e, s') | (Inr x, s') \<Rightarrow> f x s')"

text \<open>\<^verbatim>\<open>try: m  except Exception as e: h(e)\<close>.\<close>

definition io_try :: "'a io \<Rightarrow> (exn \<Rightarrow> 'a io) \<Rightarrow> 'a io" where
  "io_try m h s = (case m s of (Inl e, s') \<Rightarrow> h e s' | (Inr x, s') \<Rightarrow> (Inr x, s'))"

text \<open>\<^verbatim>\<open>try: m  finally: c\<close>, for a \<open>c\<close> that cannot raise.\<close>

definition io_finally :: "'a io \<Rightarrow> (world \<Rightarrow> world) \<Rightarrow> 'a io" where
  "io_finally m c s = (case m s of (r, s') \<Rightarrow> (r, c s'))"

definition create_download_task :: "string \<Rightarrow> string \<Rightarrow> int \<Rightarrow> world \<Rightarrow> world" where
  \<comment> \<open>\<open>task_id\<close> is the value \<^verbatim>\<open>str(uuid.uuid4())\<close> yields in this call\<close>
  "create_download_task task_id url maxsize s =
     s\<lparr>downloads := (downloads s)(task_id \<mapsto>
         \<lparr>job_url = url, job_maxsize = maxsize, job_status = ''created'', job_progress = 0,
          job_created_at = now s, job_mp3_path = None, job_thumb_path = None,
          job_error = None, job_updated_at = None\<rparr>)\<rparr>"

definition update_download :: "string \<Rightarrow> kwarg list \<Rightarrow> world \<Rightarrow> world" where
  "update_download task_id kwargs s =
     (case downloads s task_id of
        None \<Rightarrow> s
      | Some j \<Rightarrow>
          s\<lparr>downloads := (downloads s)(task_id \<mapsto>
              (fold set_field kwargs j)\<lparr>job_updated_at := Some (now s)\<rparr>)\<rparr>)"

definition get_download :: "string \<Rightarrow> world \<Rightarrow> job option" where
  "get_download task_id s = downloads s task_id"

section \<open>Sending to the client\<close>

text \<open>
  The \<open>ws\<close> argument of \<open>download_audio\<close> is the client's WebSocket or the
  \<^verbatim>\<open>MockWebSocket\<close> of \<open>api_download_url\<close>, whose \<open>send_json\<close> does nothing.
\<close>

datatype sock = Client | Mock

definition send_json :: "sock \<Rightarrow> message \<Rightarrow> unit io" where
  "send_json ws m s =
     (case ws of
        Mock \<Rightarrow> (Inr (), s)
      | Client \<Rightarrow>
          (case ws_script s of
             [] \<Rightarrow> (Inr (), s\<lparr>ws_sent := ws_sent s @ [m]\<rparr>)
           | None # rest \<Rightarrow> (Inr (), s\<lparr>ws_script := rest, ws_sent := ws_sent s @ [m]\<rparr>)
           | Some e # rest \<Rightarrow> (Inl e, s\<lparr>ws_script := rest\<rparr>)))"

definition io_get :: "(world \<Rightarrow> 'a) \<Rightarrow> 'a io" where
  "io_get f s = (Inr (f s), s)"

definition io_modify :: "(world \<Rightarrow> world) \<Rightarrow> unit io" where
  "io_modify f s = (Inr (), f s)"

section \<open>The external extractor and the HTTP client\<close>

text \<open>
  \<open>yt_dlp\<close> and \<open>requests\<close> are not part of the repository; \<open>download_audio\<close> is
  modelled over what they do in one call. \<open>info_title\<close> is \<^verbatim>\<open>info.get('title')\<close>
  (\<open>None\<close>: no such key), \<open>info_thumbnails\<close> the \<^verbatim>\<open>'url'\<close> of each entry of
  \<^verbatim>\<open>info.get('thumbnails', [])\<close>.
\<close>

record info =
  info_title :: "string option"
  info_thumbnails :: "string option list"

text \<open>
  One call of \<open>progress_hook\<close>. \<open>Downloading r\<close>: status \<^verbatim>\<open>'downloading'\<close>, \<open>r\<close>
  being what \<^verbatim>\<open>float()\<close> makes of the cleaned \<^verbatim>\<open>_percent_str\<close> (\<open>None\<close>: it
  raises \<^verbatim>\<open>ValueError\<close>). \<open>Malformed e\<close>: reading the dict raises \<open>e\<close>.
\<close>

datatype hook_event =
    Downloading "real option"
  | Finished
  | Other_status
  | Malformed exn

text \<open>The \<^verbatim>\<open>'format'\<close> entry of \<^verbatim>\<open>ydl_opts\<close>; the other entries are constant.\<close>

datatype format_sel = Bestaudio_best | Filesize_below int

text \<open>
  What the extractor does for one URL: \<open>probe\<close> is the result of
  \<^verbatim>\<open>extract_info(url, download=False)\<close>; during \<^verbatim>\<open>extract_info(url, download=True)\<close>
  it calls the progress hook with \<open>hook_calls\<close>, leaves the files \<open>written\<close> (path and
  size in bytes) and returns or raises \<open>fetched\<close>; \<open>prepared\<close> is
  \<^verbatim>\<open>prepare_filename(info)\<close>.
\<close>

record extraction =
  probe :: "exn + info"
  hook_calls :: "hook_event list"
  written :: "(string \<times> nat) list"
  fetched :: "exn + info"
  prepared :: string

text \<open>
  Fetching and storing a thumbnail: \<open>Get_fails e\<close>, \<^verbatim>\<open>requests.get\<close> or
  \<^verbatim>\<open>raise_for_status\<close> raises; \<open>Write_fails e n\<close>, \<^verbatim>\<open>open\<close> raises (\<open>n = None\<close>) or
  the stream breaks after \<open>n\<close> bytes are in the file; \<open>Fetched n\<close>, \<open>n\<close> bytes
  stored.
\<close>

datatype fetch_outcome = Get_fails exn | Write_fails exn "nat option" | Fetched nat

record env =
  yt_dlp :: "format_sel \<Rightarrow> string \<Rightarrow> extraction"
  requests_get :: "string \<Rightarrow> fetch_outcome"

section \<open>download\_audio (download\_yt.py)\<close>

text \<open>
  The directory \<open>out_folder\<close> exists (lines 13, 14 create it); \<open>files\<close> holds regular
  files only.

  \<open>progress_hook\<close> sends nothing itself: it hands \<^verbatim>\<open>ws.send_json(...)\<close> to the event loop
  with \<^verbatim>\<open>run_coroutine_threadsafe\<close> and never looks at the outcome. \<open>schedule_send\<close>
  records the scheduled send; on the \<^verbatim>\<open>MockWebSocket\<close> the send does nothing whenever it
  runs.
\<close>

definition schedule_send :: "sock \<Rightarrow> message \<Rightarrow> world \<Rightarrow> world" where
  "schedule_send ws m s =
     (case ws of
        Mock \<Rightarrow> s
      | Client \<Rightarrow> s\<lparr>ws_scheduled := ws_scheduled s @ [(length (ws_sent s), m)]\<rparr>)"

definition progress_hook :: "sock \<Rightarrow> hook_event \<Rightarrow> world \<Rightarrow> world" where
  "progress_hook ws d s =
     (case d of
        Downloading r \<Rightarrow>
          (let percent = (case r of Some x \<Rightarrow> x | None \<Rightarrow> 0)
           in schedule_send ws (progress_msg percent Loading) s)
      | Finished \<Rightarrow> schedule_send ws (progress_msg 95 Converting) s
      | Other_status \<Rightarrow> s
      | Malformed e \<Rightarrow> schedule_send ws (progress_msg 0 (Hook_error e)) s)"

definition extract_info_probe :: "extraction \<Rightarrow> info io" where
  "extract_info_probe ydl s = (probe ydl, s)"

definition extract_info_download :: "sock \<Rightarrow> extraction \<Rightarrow> info io" where
  "extract_info_download ws ydl s =
     (let s1 = fold (progress_hook ws) (hook_calls ydl) s
      in (fetched ydl, s1\<lparr>files := files s1 ++ map_of (written ydl)\<rparr>))"

definition os_remove :: "string \<Rightarrow> unit io" where
  "os_remove path s = (Inr (), s\<lparr>files := (files s)(path := None)\<rparr>)"

definition http_download :: "env \<Rightarrow> string \<Rightarrow> string \<Rightarrow> unit io" where
  "http_download env thumb_url thumb_path s =
     (case requests_get env thumb_url of
        Get_fails e \<Rightarrow> (Inl e, s)
      | Write_fails e None \<Rightarrow> (Inl e, s)
      | Write_fails e (Some n) \<Rightarrow> (Inl e, s\<lparr>files := (files s)(thumb_path \<mapsto> n)\<rparr>)
      | Fetched n \<Rightarrow> (Inr (), s\<lparr>files := (files s)(thumb_path \<mapsto> n)\<rparr>))"

text \<open>Lines 111 to 131: the inner \<^verbatim>\<open>try\<close> around the thumbnail.\<close>

definition fetch_thumbnail ::
  "env \<Rightarrow> sock \<Rightarrow> string \<Rightarrow> string \<Rightarrow> string \<Rightarrow> string option io" where
  "fetch_thumbnail env ws out_folder title thumb_url =
     (let thumb_ext =
            (if contains ''webp'' (lower thumb_url) then ''.webp''
             else if contains ''png'' (lower thumb_url) then ''.png''
             else ''.jpg'');
          thumb_path = path_join out_folder (title @ ''_thumbnail'' @ thumb_ext)
      in io_try
           (io_bind (http_download env thumb_url thumb_path) (\<lambda>_.
            io_bind (send_json ws (progress_msg 95 Thumbnail_saved)) (\<lambda>_.
            io_return (Some thumb_path))))
           (\<lambda>e. io_bind (send_json ws (progress_msg 95 (Thumbnail_failed e))) (\<lambda>_.
                io_return None)))"

definition thumbnail_step ::
  "env \<Rightarrow> sock \<Rightarrow> string \<Rightarrow> string \<Rightarrow> info \<Rightarrow> string option io" where
  "thumbnail_step env ws out_folder title info =
     (let thumbnails = info_thumbnails info
      in if thumbnails \<noteq> [] then
           (case last thumbnails of
              None \<Rightarrow> io_return None
            | Some thumb_url \<Rightarrow>
                if thumb_url \<noteq> [] then fetch_thumbnail env ws out_folder title thumb_url
                else io_return None)
         else io_bind (send_json ws (progress_msg 95 Thumbnail_unavailable)) (\<lambda>_.
              io_return None))"

text \<open>
  Lines 80 to 136, what follows the download: the check that the mp3 exists, the check of
  its size, the thumbnail, the final message. \<open>title\<close> is the sanitised title of the
  first \<open>extract_info\<close>, \<open>info\<close> the result of the second.
\<close>

definition after_download ::
  "env \<Rightarrow> sock \<Rightarrow> string \<Rightarrow> int \<Rightarrow> extraction \<Rightarrow> string \<Rightarrow> info
   \<Rightarrow> (string option \<times> string option) io" where
  "after_download env ws out_folder max_filesize_mb ydl title info =
     (let original_filename = prepared ydl;
          mp3_path = fst (splitext original_filename) @ ''.mp3''
      in io_bind (io_get (\<lambda>s. files s mp3_path)) (\<lambda>found.
         case found of
           None \<Rightarrow>
             io_bind (send_json ws (progress_msg 0 Mp3_not_created)) (\<lambda>_.
             io_return (None, None))
         | Some bytes \<Rightarrow>
             let file_size_mb = real bytes / (1024 * 1024)
             in if max_filesize_mb \<noteq> 0 \<and> file_size_mb > of_int max_filesize_mb then
                  io_bind (os_remove mp3_path) (\<lambda>_.
                  io_bind (send_json ws
                             (progress_msg 0 (Over_limit file_size_mb max_filesize_mb))) (\<lambda>_.
                  io_return (None, None)))
                else
                  io_bind (send_json ws (progress_msg 90 Fetching_thumbnail)) (\<lambda>_.
                  io_bind (thumbnail_step env ws out_folder title info) (\<lambda>thumb_path.
                  io_bind (send_json ws (progress_msg 100 Ready)) (\<lambda>_.
                  io_return (Some mp3_path, thumb_path))))))"

text \<open>The body of the outer \<^verbatim>\<open>try\<close> (lines 68 to 136).\<close>

definition download_body ::
  "env \<Rightarrow> string \<Rightarrow> sock \<Rightarrow> string \<Rightarrow> int \<Rightarrow> (string option \<times> string option) io" where
  "download_body env url ws out_folder max_filesize_mb =
     (let ydl = yt_dlp env
                  (if max_filesize_mb \<noteq> 0 then Filesize_below max_filesize_mb
                   else Bestaudio_best) url
      in io_bind (send_json ws (progress_msg 5 Fetching_info)) (\<lambda>_.
         io_bind (extract_info_probe ydl) (\<lambda>info0.
         let title = safe_filename (case info_title info0 of Some t \<Rightarrow> t | None \<Rightarrow> ''audio'')
         in io_bind (send_json ws (progress_msg 10 (Start_download title))) (\<lambda>_.
            io_bind (extract_info_download ws ydl) (\<lambda>info.
            after_download env ws out_folder max_filesize_mb ydl title info)))))"

definition download_audio ::
  "env \<Rightarrow> string \<Rightarrow> sock \<Rightarrow> string \<Rightarrow> int \<Rightarrow> (string option \<times> string option) io" where
  "download_audio env url ws out_folder max_filesize_mb =
     io_try (download_body env url ws out_folder max_filesize_mb)
       (\<lambda>e. io_bind (send_json ws (progress_msg 0 (Error_text e))) (\<lambda>_.
            io_return (None, None)))"

section \<open>The streaming endpoint (app.py, websocket\_download)\<close>

text \<open>
  \<^verbatim>\<open>p and os.path.exists(p)\<close> for an optional path: when it holds, the path and the size
  \<^verbatim>\<open>os.path.getsize(p)\<close> then reads.
\<close>

definition existing :: "string option \<Rightarrow> world \<Rightarrow> (string \<times> nat) option" where
  "existing p s =
     (case p of
        None \<Rightarrow> None
      | Some x \<Rightarrow>
          if x \<noteq> [] then (case files s x of Some bytes \<Rightarrow> Some (x, bytes) | None \<Rightarrow> None)
          else None)"

text \<open>\<^verbatim>\<open>round(x, 2)\<close>: to the nearest hundredth, a tie going to the even one.\<close>

definition round2 :: "real \<Rightarrow> real" where
  "round2 x =
     (let y = x * 100; f = \<lfloor>y\<rfloor>; d = y - of_int f
      in (if d < 1 / 2 then of_int f
          else if d > 1 / 2 then of_int (f + 1)
          else if even f then of_int f
          else of_int (f + 1)) / 100)"

definition coming_soon_msg :: "string \<Rightarrow> message" where
  "coming_soon_msg platform =
     [(''error'', Txt (Support_soon platform)), (''coming_soon'', Bool True),
      (''platform'', Str platform)]"

definition thumbnail_entry :: "string option \<Rightarrow> world \<Rightarrow> message" where
  \<comment> \<open>lines 162, 163 and 283, 284\<close>
  "thumbnail_entry thumb_path s =
     (case existing thumb_path s of
        Some (t, _) \<Rightarrow> [(''thumbnail_url'', Str (''/api/file/'' @ basename t))]
      | None \<Rightarrow> [])"

definition ws_accept_call :: "unit io" where
  "ws_accept_call s = (case ws_accept s of Some e \<Rightarrow> (Inl e, s) | None \<Rightarrow> (Inr (), s))"

text \<open>Lines 144 to 176: recording the outcome and sending the terminal message.\<close>

definition finish_task ::
  "string \<Rightarrow> int \<Rightarrow> string option \<times> string option \<Rightarrow> unit io" where
  "finish_task task_id maxsize r =
     (case r of (mp3_path, thumb_path) \<Rightarrow>
        io_bind (io_get (existing mp3_path)) (\<lambda>found.
        case found of
          Some (p, bytes) \<Rightarrow>
            io_bind (io_modify (update_download task_id
                       [Status ''completed'', Progress 100, Mp3_path mp3_path,
                        Thumb_path thumb_path])) (\<lambda>_.
            io_bind (io_get (thumbnail_entry thumb_path)) (\<lambda>thumb.
            send_json Client
              ([(''message'', Txt Download_complete),
                (''download_url'', Str (''/api/file/'' @ basename p)),
                (''task_id'', Str task_id),
                (''file_size_mb'', Num (round2 (real bytes / (1024 * 1024))))] @ thumb)))
        | None \<Rightarrow>
            io_bind (io_modify (update_download task_id
                       [Status ''failed'', Error (Download_failed maxsize)])) (\<lambda>_.
            send_json Client
              [(''error'', Txt (Download_failed maxsize)), (''task_id'', Str task_id)])))"

text \<open>The body of the \<^verbatim>\<open>try\<close> (lines 101 to 176).\<close>

definition websocket_body :: "env \<Rightarrow> string \<Rightarrow> string \<Rightarrow> string \<Rightarrow> int \<Rightarrow> unit io" where
  "websocket_body env connection_id task_id url maxsize =
     io_bind ws_accept_call (\<lambda>_.
     io_bind (io_modify (\<lambda>s. s\<lparr>active_connections :=
                                  insert connection_id (active_connections s)\<rparr>)) (\<lambda>_.
     if blank url then send_json Client (error_msg Url_empty)
     else if maxsize \<le> 0 \<or> maxsize > MAX_FILE_SIZE_MB then
       send_json Client (error_msg (Size_out_of_range MAX_FILE_SIZE_MB))
     else
       let platform = get_platform_from_url url
       in if \<not> is_supported_platform url then
            (if is_coming_soon url then send_json Client (coming_soon_msg platform)
             else send_json Client (error_msg Unsupported_only_youtube))
          else
            io_bind (io_modify (create_download_task task_id url maxsize)) (\<lambda>_.
            io_bind (send_json Client
                       [(''status'', Txt (Starting_from platform)), (''progress'', Num 0),
                        (''task_id'', Str task_id)]) (\<lambda>_.
            io_bind (download_audio env url Client DOWNLOAD_FOLDER maxsize) (\<lambda>r.
            finish_task task_id maxsize r)))))"

text \<open>
  \<open>connection_id\<close> and \<open>task_id\<close> are the two values \<^verbatim>\<open>str(uuid.uuid4())\<close> yields
  in this call. The handlers: \<^verbatim>\<open>WebSocketDisconnect\<close> is logged; any other exception
  is reported to the client, a failure of that report being dropped; at the end the
  connection is unregistered and closed.
\<close>

definition websocket_download :: "env \<Rightarrow> string \<Rightarrow> string \<Rightarrow> string \<Rightarrow> int \<Rightarrow> unit io" where
  "websocket_download env connection_id task_id url maxsize =
     io_finally
       (io_try (websocket_body env connection_id task_id url maxsize)
          (\<lambda>e. case e of
                  WebSocketDisconnect \<Rightarrow> io_return ()
                | _ \<Rightarrow> io_try (send_json Client (error_msg (Error_occurred e)))
                         (\<lambda>_. io_return ())))
       (\<lambda>s. s\<lparr>active_connections := active_connections s - {connection_id},
              ws_closed := True\<rparr>)"

section \<open>The plain endpoint (app.py, api\_download\_url)\<close>

text \<open>
  \<open>url_arg\<close> is \<^verbatim>\<open>data.get("url")\<close>, \<open>maxsize_arg\<close> the \<^verbatim>\<open>"maxsize"\<close> entry of
  \<open>data\<close> (\<open>None\<close>: no such key). The result is the JSON body returned, or the
  \<^verbatim>\<open>HTTPException\<close> raised; the one raised inside the \<^verbatim>\<open>try\<close> is caught by its
  \<^verbatim>\<open>except Exception\<close> like any other.
\<close>

definition api_download_url :: "env \<Rightarrow> string option \<Rightarrow> int option \<Rightarrow> message io" where
  "api_download_url env url_arg maxsize_arg =
     (let maxsize = (case maxsize_arg of Some m \<Rightarrow> m | None \<Rightarrow> 15)
      in case url_arg of
           None \<Rightarrow> io_raise (HTTPException 400 Url_required)
         | Some url \<Rightarrow>
             if url = [] then io_raise (HTTPException 400 Url_required)
             else if \<not> is_supported_platform url then
               (let platform = get_platform_from_url url
                in if is_coming_soon url then io_return (coming_soon_msg platform)
                   else io_raise (HTTPException 400 Unsupported_platform))
             else
               io_try
                 (io_bind (download_audio env url Mock DOWNLOAD_FOLDER maxsize) (\<lambda>r.
                  case r of (mp3_path, thumb_path) \<Rightarrow>
                    io_bind (io_get (existing mp3_path)) (\<lambda>found.
                    case found of
                      Some (p, bytes) \<Rightarrow>
                        io_bind (io_get (thumbnail_entry thumb_path)) (\<lambda>thumb.
                        io_return
                          ([(''message'', Txt File_ready),
                            (''download_url'', Str (''/api/file/'' @ basename p)),
                            (''file_size_mb'', Num (round2 (real bytes / (1024 * 1024))))]
                           @ thumb))
                    | None \<Rightarrow> io_raise (HTTPException 400 (Too_big_or_error maxsize)))))
                 (\<lambda>e. io_raise (HTTPException 500 (Str_of e))))"

section \<open>Artifact retrieval (app.py, serve\_file)\<close>

record file_response =
  resp_path :: string
  resp_filename :: string
  resp_media_type :: string
  resp_headers :: "(string \<times> string) list"

text \<open>
  The second component of the result lists the paths the call hands to the file system
  (\<^verbatim>\<open>os.path.exists\<close>, \<^verbatim>\<open>FileResponse\<close>), in order.
\<close>

definition serve_file :: "string \<Rightarrow> world \<Rightarrow> (exn + file_response) \<times> string list" where
  "serve_file file_name s =
     (if contains ''..'' file_name \<or> contains ''/'' file_name \<or> contains [backslash] file_name
      then (Inl (HTTPException 400 Bad_file_name), [])
      else
        let file_path = path_join DOWNLOAD_FOLDER file_name
        in if files s file_path = None then (Inl (HTTPException 404 File_not_found), [file_path])
           else
             let file_ext = lower (snd (splitext file_name));
                 media_type =
                   (if file_ext = ''.mp3'' then ''audio/mpeg''
                    else if file_ext \<in> set [''.jpg'', ''.jpeg''] then ''image/jpeg''
                    else if file_ext = ''.png'' then ''image/png''
                    else if file_ext = ''.webp'' then ''image/webp''
                    else ''application/octet-stream'')
             in (Inr \<lparr>resp_path = file_path, resp_filename = file_name,
                      resp_media_type = media_type,
                      resp_headers = [(''Cache-Control'', ''public, max-age=3600'')]\<rparr>,
                 [file_path, file_path]))"

section \<open>Reading a run\<close>

text \<open>The values under the key \<^verbatim>\<open>"progress"\<close> in a list of messages, in order.\<close>

definition progress_of :: "message \<Rightarrow> real option" where
  "progress_of m = (case map_of m ''progress'' of Some (Num p) \<Rightarrow> Some p | _ \<Rightarrow> None)"

definition progresses :: "message list \<Rightarrow> real list" where
  "progresses ms = List.map_filter progress_of ms"

text \<open>
  What the client has received when the event loop ran the scheduled sends once \<open>k\<close> of
  the handler's messages were out: the scheduled messages, in the order they were
  scheduled, after the first \<open>k\<close>. \<open>may_run_at k\<close>: the handler has suspended at least
  once (in the \<open>k\<close>-th send or before) since each of them was scheduled. When the loop
  runs them only after the connection is closed, they are lost and the client has received
  \<open>ws_sent\<close>.
\<close>

definition client_view :: "nat \<Rightarrow> world \<Rightarrow> message list" where
  "client_view k s = take k (ws_sent s) @ map snd (ws_scheduled s) @ drop k (ws_sent s)"

definition may_run_at :: "nat \<Rightarrow> world \<Rightarrow> bool" where
  "may_run_at k s =
     (k \<le> length (ws_sent s) \<and> \<not> list_ex (\<lambda>(n, m). k \<le> n) (ws_scheduled s))"


text \<open>A connection that is accepted and on which every send succeeds.\<close>

definition connection_open :: "world \<Rightarrow> bool" where
  "connection_open s = (ws_accept s = None \<and> ws_script s = [])"

text \<open>A submission that passes the validation of the streaming endpoint.\<close>

definition valid_request :: "string \<Rightarrow> int \<Rightarrow> bool" where
  "valid_request url maxsize =
     (\<not> blank url \<and> 0 < maxsize \<and> maxsize \<le> MAX_FILE_SIZE_MB \<and> is_supported_platform url)"

section \<open>Auxiliary notions for the proofs\<close>

text \<open>\<open>keeps f m\<close>: running \<open>m\<close> never changes the component \<open>f\<close> of the world.\<close>

definition keeps :: "(world \<Rightarrow> 'b) \<Rightarrow> 'a io \<Rightarrow> bool" where
  "keeps f m = (\<forall>s. f (snd (m s)) = f s)"

text \<open>The keys of the Job Store, and its entries under every key but \<open>task_id\<close>.\<close>

definition others :: "string \<Rightarrow> world \<Rightarrow> string set \<times> (string \<rightharpoonup> job)" where
  "others task_id s = (dom (downloads s), (downloads s)(task_id := None))"

text \<open>
  Names for three parts of \<open>websocket_download\<close>: lines 130 to 176 (what follows the
  creation of the job), the two \<^verbatim>\<open>except\<close> clauses, and the \<^verbatim>\<open>finally\<close> clause.
\<close>

definition run_task :: "env \<Rightarrow> string \<Rightarrow> string \<Rightarrow> int \<Rightarrow> unit io" where
  "run_task env task_id url maxsize =
     io_bind (send_json Client
                [(''status'', Txt (Starting_from (get_platform_from_url url))),
                 (''progress'', Num 0), (''task_id'', Str task_id)]) (\<lambda>_.
     io_bind (download_audio env url Client DOWNLOAD_FOLDER maxsize) (\<lambda>r.
     finish_task task_id maxsize r))"

definition on_error :: "exn \<Rightarrow> unit io" where
  "on_error e =
     (case e of
        WebSocketDisconnect \<Rightarrow> io_return ()
      | _ \<Rightarrow> io_try (send_json Client (error_msg (Error_occurred e))) (\<lambda>_. io_return ()))"

definition on_exit :: "string \<Rightarrow> world \<Rightarrow> world" where
  "on_exit connection_id s =
     s\<lparr>active_connections := active_connections s - {connection_id}, ws_closed := True\<rparr>"

text \<open>The message \<open>progress_hook\<close> schedules for an event, if any.\<close>

definition hook_message :: "hook_event \<Rightarrow> message option" where
  "hook_message d =
     (case d of
        Downloading r \<Rightarrow> Some (progress_msg (case r of Some x \<Rightarrow> x | None \<Rightarrow> 0) Loading)
      | Finished \<Rightarrow> Some (progress_msg 95 Converting)
      | Other_status \<Rightarrow> None
      | Malformed e \<Rightarrow> Some (progress_msg 0 (Hook_error e)))"

text \<open>
  The thumbnail retrieval fails: the metadata lists no thumbnail, the last one has no URL or
  an empty one, or fetching and storing it raises.
\<close>

definition thumbnail_fails :: "env \<Rightarrow> info \<Rightarrow> bool" where
  "thumbnail_fails env info =
     (case info_thumbnails info of
        [] \<Rightarrow> True
      | _ \<Rightarrow>
         (case last (info_thumbnails info) of
            None \<Rightarrow> True
          | Some thumb_url \<Rightarrow>
              thumb_url = []
              \<or> (case requests_get env thumb_url of Fetched n \<Rightarrow> False | _ \<Rightarrow> True)))"

text \<open>
  What \<open>download_audio\<close> computes on its way: the extraction it asks for, the path of the
  mp3 it expects (lines 81, 82), the size test of lines 90 to 92, the sanitised title of
  line 73, and the world as it stands when the second \<open>extract_info\<close> has returned and every
  send so far has succeeded.
\<close>

definition ydl_of :: "env \<Rightarrow> string \<Rightarrow> int \<Rightarrow> extraction" where
  "ydl_of env url max_filesize_mb =
     yt_dlp env (if max_filesize_mb \<noteq> 0 then Filesize_below max_filesize_mb
                 else Bestaudio_best) url"

definition mp3_path_of :: "extraction \<Rightarrow> string" where
  "mp3_path_of ydl = fst (splitext (prepared ydl)) @ ''.mp3''"

definition over_limit :: "nat \<Rightarrow> int \<Rightarrow> bool" where
  "over_limit bytes max_filesize_mb =
     (max_filesize_mb \<noteq> 0 \<and> real bytes / (1024 * 1024) > of_int max_filesize_mb)"

definition title_of :: "info \<Rightarrow> string" where
  "title_of info0 = safe_filename (case info_title info0 of Some t \<Rightarrow> t | None \<Rightarrow> ''audio'')"

definition downloaded :: "extraction \<Rightarrow> string \<Rightarrow> world \<Rightarrow> world" where
  "downloaded ydl title s =
     s\<lparr>ws_sent := ws_sent s
          @ [progress_msg 5 Fetching_info, progress_msg 10 (Start_download title)],
       ws_scheduled := ws_scheduled s
          @ map (Pair (length (ws_sent s) + 2)) (List.map_filter hook_message (hook_calls ydl)),
       files := files s ++ map_of (written ydl)\<rparr>"

text \<open>
  \<open>artifact\<close>: when both calls of \<open>extract_info\<close> return, the size of the file then found
  at the expected mp3 path, if there is one. \<open>succeeds\<close>: there is such a file and it passes
  the size test. \<open>relayed_values\<close>: the values \<open>progress_hook\<close> schedules during the
  download.
\<close>

definition artifact :: "env \<Rightarrow> string \<Rightarrow> int \<Rightarrow> world \<Rightarrow> nat option" where
  "artifact env url m s =
     (let ydl = ydl_of env url m
      in case probe ydl of
           Inl _ \<Rightarrow> None
         | Inr _ \<Rightarrow>
             (case fetched ydl of
                Inl _ \<Rightarrow> None
              | Inr _ \<Rightarrow> (files s ++ map_of (written ydl)) (mp3_path_of ydl)))"

definition succeeds :: "env \<Rightarrow> string \<Rightarrow> int \<Rightarrow> world \<Rightarrow> bool" where
  "succeeds env url m s =
     (case artifact env url m s of None \<Rightarrow> False | Some bytes \<Rightarrow> \<not> over_limit bytes m)"


text \<open>
  The messages of lines 130 to 134, 155 to 163 and 173 to 176, and the Job records of lines
  53 to 62, 146 to 152 and 168 to 172 (\<open>t\<close> is the time stamp).
\<close>

definition success_msg :: "string \<Rightarrow> string \<Rightarrow> nat \<Rightarrow> message \<Rightarrow> message" where
  "success_msg task_id p bytes thumb =
     [(''message'', Txt Download_complete),
      (''download_url'', Str (''/api/file/'' @ basename p)),
      (''task_id'', Str task_id),
      (''file_size_mb'', Num (round2 (real bytes / (1024 * 1024))))] @ thumb"

definition failure_msg :: "string \<Rightarrow> int \<Rightarrow> message" where
  "failure_msg task_id maxsize =
     [(''error'', Txt (Download_failed maxsize)), (''task_id'', Str task_id)]"

definition completed :: "job \<Rightarrow> string option \<Rightarrow> string option \<Rightarrow> nat \<Rightarrow> job" where
  "completed j mp3_path thumb_path t =
     j\<lparr>job_status := ''completed'', job_progress := 100, job_mp3_path := mp3_path,
       job_thumb_path := thumb_path, job_updated_at := Some t\<rparr>"

definition failed :: "job \<Rightarrow> int \<Rightarrow> nat \<Rightarrow> job" where
  "failed j maxsize t =
     j\<lparr>job_status := ''failed'', job_error := Some (Download_failed maxsize),
       job_updated_at := Some t\<rparr>"

definition started_msg :: "string \<Rightarrow> string \<Rightarrow> message" where
  "started_msg url task_id =
     [(''status'', Txt (Starting_from (get_platform_from_url url))),
      (''progress'', Num 0), (''task_id'', Str task_id)]"

definition created :: "string \<Rightarrow> int \<Rightarrow> nat \<Rightarrow> job" where
  "created url maxsize t =
     \<lparr>job_url = url, job_maxsize = maxsize, job_status = ''created'', job_progress = 0,
      job_created_at = t, job_mp3_path = None, job_thumb_path = None,
      job_error = None, job_updated_at = None\<rparr>"

section \<open>Sample inputs\<close>

text \<open>
  A video whose download leaves an mp3 of the given size, reports 3 percent and then the
  end of the download, and whose thumbnail cannot be fetched; a world with an empty Job
  Store, no files and an open connection.
\<close>

definition sample_info :: info where
  "sample_info =
     \<lparr>info_title = Some ''Song'',
      info_thumbnails = [Some ''https://i.ytimg.com/vi/abc123/hq.webp'']\<rparr>"

definition sample_ydl :: "nat \<Rightarrow> extraction" where
  "sample_ydl bytes =
     \<lparr>probe = Inr sample_info,
      hook_calls = [Downloading (Some 3), Finished],
      written = [(''download/Song.mp3'', bytes)],
      fetched = Inr sample_info,
      prepared = ''download/Song.webm''\<rparr>"

definition sample_env :: "nat \<Rightarrow> env" where
  "sample_env bytes =
     \<lparr>yt_dlp = (\<lambda>format url. sample_ydl bytes),
      requests_get = (\<lambda>url. Get_fails (Exception ''timed out''))\<rparr>"

definition world0 :: world where
  "world0 =
     \<lparr>downloads = Map.empty, active_connections = {}, files = Map.empty, now = 0,
      ws_accept = None, ws_script = [], ws_sent = [], ws_scheduled = [],
      ws_closed = False\<rparr>"

section \<open>Properties of the sanitisation\<close>

lemma length_safe_filename: "length (safe_filename s) = length s"
  unfolding safe_filename_def by (induction s) simp_all

lemma nth_safe_filename:
  "i < length s \<Longrightarrow>
   safe_filename s ! i = (if s ! i \<in> set unsafe_chars then CHR ''_'' else s ! i)"
  unfolding safe_filename_def
proof (induction s arbitrary: i)
  case Nil
  then show ?case by simp
next
  case (Cons c cs)
  then show ?case by (cases i) simp_all
qed

lemma underscore_safe: "CHR ''_'' \<notin> set unsafe_chars"
  by (simp add: unsafe_chars_def dquote_def backslash_def)

lemma set_safe_filename: "set (safe_filename s) \<inter> set unsafe_chars = {}"
  unfolding safe_filename_def using underscore_safe by (induction s) auto

lemma safe_filename_fixed:
  "set s \<inter> set unsafe_chars = {} \<Longrightarrow> safe_filename s = s"
  unfolding safe_filename_def by (induction s) auto

text \<open>
  C7. For every input string, \<open>safe_filename\<close> keeps the length, puts \<open>_\<close> at every
  position that holds one of \<open>< > : " / \ | ? *\<close> and leaves every other position as it
  is; the title \<open>My/Song:Title*\<close> becomes \<open>My_Song_Title_\<close>.
\<close>

theorem safe_filename_replaces:
  "length (safe_filename s) = length s
   \<and> (\<forall>i < length s.
        safe_filename s ! i = (if s ! i \<in> set unsafe_chars then CHR ''_'' else s ! i))
   \<and> set unsafe_chars =
        {CHR ''<'', CHR ''>'', CHR '':'', CHR 0x22, CHR ''/'', CHR 0x5C,
         CHR ''|'', CHR ''?'', CHR ''*''}
   \<and> safe_filename ''My/Song:Title*'' = ''My_Song_Title_''"
proof -
  have "safe_filename ''My/Song:Title*'' = ''My_Song_Title_''"
    by (simp add: safe_filename_def unsafe_chars_def dquote_def backslash_def)
  moreover have "set unsafe_chars =
        {CHR ''<'', CHR ''>'', CHR '':'', CHR 0x22, CHR ''/'', CHR 0x5C,
         CHR ''|'', CHR ''?'', CHR ''*''}"
    by (simp add: unsafe_chars_def dquote_def backslash_def)
  ultimately show ?thesis
    by (simp add: length_safe_filename nth_safe_filename)
qed

theorem safe_filename_replaces_witness:
  "(1::nat) < length ''a/b''
   \<and> safe_filename ''a/b'' ! 1 = CHR ''_''
   \<and> safe_filename ''a/b'' ! 0 = CHR ''a''"
proof -
  have a: "\<forall>i < length ''a/b''.
        safe_filename ''a/b'' ! i
          = (if ''a/b'' ! i \<in> set unsafe_chars then CHR ''_'' else ''a/b'' ! i)"
    using safe_filename_replaces [of "''a/b''"] by blast
  have "safe_filename ''a/b'' ! 1
          = (if ''a/b'' ! 1 \<in> set unsafe_chars then CHR ''_'' else ''a/b'' ! 1)"
    using a by simp
  moreover have "safe_filename ''a/b'' ! 0
          = (if ''a/b'' ! 0 \<in> set unsafe_chars then CHR ''_'' else ''a/b'' ! 0)"
    using a by simp
  ultimately show ?thesis
    by (simp add: unsafe_chars_def dquote_def backslash_def)
qed

text \<open>
  C10. \<open>safe_filename\<close> is idempotent, and its output holds none of the characters
  \<open>< > : " / \ | ? *\<close>.
\<close>

theorem safe_filename_idempotent:
  "safe_filename (safe_filename s) = safe_filename s
   \<and> set (safe_filename s) \<inter> set unsafe_chars = {}"
  using safe_filename_fixed [OF set_safe_filename] set_safe_filename by simp

section \<open>What a run leaves unchanged\<close>

lemma keepsI: "(\<And>s. f (snd (m s)) = f s) \<Longrightarrow> keeps f m"
  by (simp add: keeps_def)

lemma keepsD: "keeps f m \<Longrightarrow> f (snd (m s)) = f s"
  by (simp add: keeps_def)

lemma keeps_return: "keeps f (io_return x)"
  by (simp add: keeps_def io_return_def)

lemma keeps_raise: "keeps f (io_raise e)"
  by (simp add: keeps_def io_raise_def)

lemma keeps_get: "keeps f (io_get g)"
  by (simp add: keeps_def io_get_def)

lemma keeps_bind: "keeps f m \<Longrightarrow> (\<And>x. keeps f (k x)) \<Longrightarrow> keeps f (io_bind m k)"
  unfolding keeps_def io_bind_def
proof (intro allI)
  fix s
  assume m: "\<forall>s. f (snd (m s)) = f s" and k: "\<And>x. \<forall>s. f (snd (k x s)) = f s"
  obtain r s1 where ms: "m s = (r, s1)" by (cases "m s")
  have s1: "f s1 = f s" using m ms by (metis snd_conv)
  show "f (snd (case m s of (Inl e, s') \<Rightarrow> (Inl e, s') | (Inr x, s') \<Rightarrow> k x s')) = f s"
    using ms s1 k by (cases r) simp_all
qed

lemma keeps_try: "keeps f m \<Longrightarrow> (\<And>e. keeps f (h e)) \<Longrightarrow> keeps f (io_try m h)"
  unfolding keeps_def io_try_def
proof (intro allI)
  fix s
  assume m: "\<forall>s. f (snd (m s)) = f s" and h: "\<And>e. \<forall>s. f (snd (h e s)) = f s"
  obtain r s1 where ms: "m s = (r, s1)" by (cases "m s")
  have s1: "f s1 = f s" using m ms by (metis snd_conv)
  show "f (snd (case m s of (Inl e, s') \<Rightarrow> h e s' | (Inr x, s') \<Rightarrow> (Inr x, s'))) = f s"
    using ms s1 h by (cases r) simp_all
qed

lemma send_json_open:
  "ws_script s = [] \<Longrightarrow> send_json Client m s = (Inr (), s\<lparr>ws_sent := ws_sent s @ [m]\<rparr>)"
  by (simp add: send_json_def)

lemma send_json_Mock: "send_json Mock m s = (Inr (), s)"
  by (simp add: send_json_def)

lemma downloads_send_json: "downloads (snd (send_json ws m s)) = downloads s"
  by (simp add: send_json_def split: sock.splits list.splits option.splits)

lemma keeps_downloads_send: "keeps downloads (send_json ws m)"
  by (simp add: keeps_def downloads_send_json)

lemma keeps_downloads_hook: "downloads (progress_hook ws d s) = downloads s"
  by (simp add: progress_hook_def schedule_send_def Let_def split: hook_event.splits sock.splits)

lemma downloads_fold_hook: "downloads (fold (progress_hook ws) ds s) = downloads s"
  by (induction ds arbitrary: s) (simp_all add: keeps_downloads_hook)

lemma keeps_option:
  "keeps f a \<Longrightarrow> (\<And>x. keeps f (b x)) \<Longrightarrow> keeps f (case v of None \<Rightarrow> a | Some x \<Rightarrow> b x)"
  by (cases v) simp_all

lemma keeps_if: "keeps f a \<Longrightarrow> keeps f b \<Longrightarrow> keeps f (if c then a else b)"
  by simp

lemma keeps_downloads_http: "keeps downloads (http_download env u p)"
  by (simp add: keeps_def http_download_def split: fetch_outcome.splits option.splits)

lemma keeps_downloads_probe: "keeps downloads (extract_info_probe ydl)"
  by (simp add: keeps_def extract_info_probe_def)

lemma keeps_downloads_extract: "keeps downloads (extract_info_download ws ydl)"
  by (simp add: keeps_def extract_info_download_def Let_def downloads_fold_hook)

lemma keeps_downloads_remove: "keeps downloads (os_remove p)"
  by (simp add: keeps_def os_remove_def)

lemma keeps_downloads_thumbnail:
  "keeps downloads (thumbnail_step env ws out_folder title info)"
  unfolding thumbnail_step_def fetch_thumbnail_def Let_def
  by (intro keeps_bind keeps_try keeps_return keeps_downloads_send keeps_option keeps_if
      keeps_downloads_http)

lemma keeps_downloads_after:
  "keeps downloads (after_download env ws out_folder max_filesize_mb ydl title info)"
  unfolding after_download_def Let_def
  by (intro keeps_bind keeps_return keeps_downloads_send keeps_get keeps_option
      keeps_if keeps_downloads_thumbnail keeps_downloads_remove)

lemma keeps_downloads_body:
  "keeps downloads (download_body env url ws out_folder max_filesize_mb)"
  unfolding download_body_def Let_def
  by (intro keeps_bind keeps_return keeps_downloads_send keeps_downloads_after
      keeps_downloads_probe keeps_downloads_extract)

lemma keeps_downloads_audio:
  "keeps downloads (download_audio env url ws out_folder max_filesize_mb)"
  unfolding download_audio_def
  by (intro keeps_try keeps_bind keeps_return keeps_downloads_send keeps_downloads_body)


lemma keeps_modify: "(\<And>s. f (g s) = f s) \<Longrightarrow> keeps f (io_modify g)"
  by (simp add: keeps_def io_modify_def)

lemma keeps_finally: "keeps f m \<Longrightarrow> (\<And>s. f (c s) = f s) \<Longrightarrow> keeps f (io_finally m c)"
  by (simp add: keeps_def io_finally_def split: prod.splits) (metis snd_conv)

lemma keeps_exn:
  "keeps f a \<Longrightarrow> (\<And>m. keeps f (b m)) \<Longrightarrow> (\<And>n p. keeps f (c n p)) \<Longrightarrow>
   keeps f (case e of WebSocketDisconnect \<Rightarrow> a | Exception m \<Rightarrow> b m | HTTPException n p \<Rightarrow> c n p)"
  by (cases e) simp_all

lemma keeps_prod: "(\<And>a b. keeps f (k a b)) \<Longrightarrow> keeps f (case r of (a, b) \<Rightarrow> k a b)"
  by (cases r) simp

lemma keeps_others: "keeps downloads m \<Longrightarrow> keeps (others task_id) m"
  by (simp add: keeps_def others_def)

lemma others_update_download: "others task_id (update_download task_id kwargs s) = others task_id s"
  by (auto simp: others_def update_download_def split: option.splits)

lemma keeps_others_finish: "keeps (others task_id) (finish_task task_id maxsize r)"
  unfolding finish_task_def
  by (intro keeps_prod keeps_bind keeps_get keeps_option keeps_modify others_update_download
      keeps_others keeps_downloads_send)

lemma websocket_download_alt:
  "websocket_download env connection_id task_id url maxsize =
     io_finally (io_try (websocket_body env connection_id task_id url maxsize) on_error)
       (on_exit connection_id)"
  unfolding websocket_download_def on_error_def on_exit_def
  by (rule arg_cong2 [where f = io_finally]) (auto intro!: ext arg_cong2 [where f = io_try] split: exn.splits)

lemma keeps_downloads_on_error: "keeps downloads (on_error e)"
  unfolding on_error_def
  by (intro keeps_exn keeps_try keeps_return keeps_downloads_send)

lemma keeps_others_run_task: "keeps (others task_id) (run_task env task_id url maxsize)"
  unfolding run_task_def
  by (intro keeps_bind keeps_others_finish keeps_others keeps_downloads_send keeps_downloads_audio)

lemma websocket_body_valid:
  "valid_request url maxsize \<Longrightarrow> ws_accept s = None \<Longrightarrow>
   websocket_body env connection_id task_id url maxsize s
     = run_task env task_id url maxsize
         (create_download_task task_id url maxsize
            (s\<lparr>active_connections := insert connection_id (active_connections s)\<rparr>))"
  by (simp add: websocket_body_def valid_request_def run_task_def ws_accept_call_def
      io_bind_def io_modify_def Let_def)

lemma websocket_body_invalid:
  "\<not> valid_request url maxsize \<Longrightarrow>
   downloads (snd (websocket_body env connection_id task_id url maxsize s)) = downloads s"
  by (auto simp add: websocket_body_def valid_request_def ws_accept_call_def
      io_bind_def io_modify_def Let_def downloads_send_json split: option.splits)

lemma streaming_store_valid:
  assumes "valid_request url maxsize" and "ws_accept s = None"
  shows "others task_id (snd (websocket_download env connection_id task_id url maxsize s))
           = (insert task_id (dom (downloads s)), (downloads s)(task_id := None))"
proof -
  let ?s1 = "create_download_task task_id url maxsize
               (s\<lparr>active_connections := insert connection_id (active_connections s)\<rparr>)"
  have k: "keeps (others task_id)
             (io_finally (io_try (run_task env task_id url maxsize) on_error)
                (on_exit connection_id))"
    by (intro keeps_finally keeps_try keeps_others_run_task keeps_others
        keeps_downloads_on_error) (simp add: others_def on_exit_def)
  have "websocket_download env connection_id task_id url maxsize s
          = io_finally (io_try (run_task env task_id url maxsize) on_error)
              (on_exit connection_id) ?s1"
    using assms
    by (simp add: websocket_download_alt io_finally_def io_try_def websocket_body_valid)
  then have "others task_id (snd (websocket_download env connection_id task_id url maxsize s))
               = others task_id ?s1"
    using keepsD [OF k, of ?s1] by simp
  also have "\<dots> = (insert task_id (dom (downloads s)), (downloads s)(task_id := None))"
    by (simp add: others_def create_download_task_def)
  finally show ?thesis .
qed

lemma streaming_store_invalid:
  assumes "\<not> valid_request url maxsize"
  shows "downloads (snd (websocket_download env connection_id task_id url maxsize s))
           = downloads s"
proof -
  have "keeps downloads (websocket_body env connection_id task_id url maxsize)"
    using websocket_body_invalid [OF assms] by (simp add: keeps_def)
  then have "keeps downloads (websocket_download env connection_id task_id url maxsize)"
    unfolding websocket_download_alt
    by (intro keeps_finally keeps_try keeps_downloads_on_error) (simp_all add: on_exit_def)
  then show ?thesis by (rule keepsD)
qed

lemma plain_store:
  "downloads (snd (api_download_url env url_arg maxsize_arg s)) = downloads s"
proof -
  have "keeps downloads (api_download_url env url_arg maxsize_arg)"
    unfolding api_download_url_def Let_def
    by (intro keeps_option keeps_if keeps_raise keeps_return keeps_try keeps_bind keeps_prod
        keeps_get keeps_downloads_audio)
  then show ?thesis by (rule keepsD)
qed

section \<open>A run over an open connection\<close>

lemma progress_of_progress_msg [simp]: "progress_of (progress_msg p t) = Some p"
  by (simp add: progress_of_def progress_msg_def)

lemma progresses_Nil [simp]: "progresses [] = []"
  by (simp add: progresses_def)

lemma progresses_Cons:
  "progresses (m # ms) = (case progress_of m of None \<Rightarrow> progresses ms | Some p \<Rightarrow> p # progresses ms)"
  by (simp add: progresses_def split: option.splits)

lemma progresses_append [simp]: "progresses (xs @ ys) = progresses xs @ progresses ys"
  by (simp add: progresses_def map_filter_def)

lemma progresses_progress_msg [simp]: "progresses (progress_msg p t # ms) = p # progresses ms"
  by (simp add: progresses_Cons)



lemma progress_hook_open:
  "progress_hook Client d s
     = s\<lparr>ws_scheduled := ws_scheduled s
          @ map (Pair (length (ws_sent s)))
              (case hook_message d of None \<Rightarrow> [] | Some m \<Rightarrow> [m])\<rparr>"
  by (simp add: progress_hook_def hook_message_def schedule_send_def Let_def
      split: hook_event.splits)

lemma fold_hook_open:
  "fold (progress_hook Client) ds s
     = s\<lparr>ws_scheduled := ws_scheduled s
          @ map (Pair (length (ws_sent s))) (List.map_filter hook_message ds)\<rparr>"
proof (induction ds arbitrary: s)
  case Nil
  then show ?case by simp
next
  case (Cons d ds)
  then show ?case
    by (simp add: progress_hook_open split: option.splits)
qed

lemma last_path_join: "b \<noteq> [] \<Longrightarrow> last (path_join a b) = last b"
  by (simp add: path_join_def)

lemma thumbnail_path_not_mp3:
  assumes "suffix ''.mp3'' p"
  shows "p \<noteq> path_join out_folder (title @ ''_thumbnail'' @ ''.webp'')"
    and "p \<noteq> path_join out_folder (title @ ''_thumbnail'' @ ''.png'')"
    and "p \<noteq> path_join out_folder (title @ ''_thumbnail'' @ ''.jpg'')"
proof -
  from assms have l: "last p = CHR ''3''" by (auto simp: suffix_def)
  show "p \<noteq> path_join out_folder (title @ ''_thumbnail'' @ ''.webp'')"
    using l last_path_join [of "title @ ''_thumbnail'' @ ''.webp''" out_folder] by auto
  show "p \<noteq> path_join out_folder (title @ ''_thumbnail'' @ ''.png'')"
    using l last_path_join [of "title @ ''_thumbnail'' @ ''.png''" out_folder] by auto
  show "p \<noteq> path_join out_folder (title @ ''_thumbnail'' @ ''.jpg'')"
    using l last_path_join [of "title @ ''_thumbnail'' @ ''.jpg''" out_folder] by auto
qed

lemma thumbnail_step_open:
  assumes "ws_script s = []"
    and "thumbnail_step env Client out_folder title info s = (r, s')"
  shows "(\<exists>t. r = Inr t \<and> (thumbnail_fails env info \<longrightarrow> t = None))
         \<and> ws_script s' = [] \<and> ws_accept s' = ws_accept s \<and> downloads s' = downloads s
         \<and> ws_scheduled s' = ws_scheduled s
         \<and> (\<exists>th. ws_sent s' = ws_sent s @ th \<and> (progresses th = [] \<or> progresses th = [95]))
         \<and> (\<forall>p. suffix ''.mp3'' p \<longrightarrow> files s' p = files s p)"
  using assms thumbnail_path_not_mp3 [of _ out_folder title]
  unfolding thumbnail_step_def fetch_thumbnail_def thumbnail_fails_def Let_def
  by (auto simp: io_bind_def io_try_def io_return_def send_json_open http_download_def
      split: option.splits fetch_outcome.splits if_splits list.splits)

lemma suffix_mp3_path_of: "suffix ''.mp3'' (mp3_path_of ydl)"
  by (simp add: mp3_path_of_def suffix_def)

lemma after_download_missing:
  assumes "ws_script s = []" and "files s (mp3_path_of ydl) = None"
  shows "after_download env Client out_folder m ydl title info s
           = (Inr (None, None), s\<lparr>ws_sent := ws_sent s @ [progress_msg 0 Mp3_not_created]\<rparr>)"
  using assms
  by (simp add: after_download_def mp3_path_of_def Let_def io_bind_def io_get_def
      io_return_def send_json_open)

lemma after_download_over:
  assumes "ws_script s = []" and "files s (mp3_path_of ydl) = Some bytes"
    and "over_limit bytes m"
  shows "after_download env Client out_folder m ydl title info s
           = (Inr (None, None),
              s\<lparr>files := (files s)(mp3_path_of ydl := None),
                ws_sent := ws_sent s
                  @ [progress_msg 0 (Over_limit (real bytes / (1024 * 1024)) m)]\<rparr>)"
  using assms
  by (simp add: after_download_def mp3_path_of_def over_limit_def Let_def io_bind_def
      io_get_def io_return_def send_json_open os_remove_def)

lemma after_download_fits:
  assumes "ws_script s = []" and "files s (mp3_path_of ydl) = Some bytes"
    and "\<not> over_limit bytes m"
    and "after_download env Client out_folder m ydl title info s = (r, s')"
  shows "(\<exists>t. r = Inr (Some (mp3_path_of ydl), t) \<and> (thumbnail_fails env info \<longrightarrow> t = None))
         \<and> ws_script s' = [] \<and> ws_accept s' = ws_accept s \<and> downloads s' = downloads s
         \<and> ws_scheduled s' = ws_scheduled s
         \<and> files s' (mp3_path_of ydl) = Some bytes
         \<and> (\<exists>ms. ws_sent s' = ws_sent s @ ms
               \<and> (progresses ms = [90, 100] \<or> progresses ms = [90, 95, 100]))"
proof -
  let ?s1 = "s\<lparr>ws_sent := ws_sent s @ [progress_msg 90 Fetching_thumbnail]\<rparr>"
  obtain rt s2 where t: "thumbnail_step env Client out_folder title info ?s1 = (rt, s2)"
    by (cases "thumbnail_step env Client out_folder title info ?s1")
  have o1: "ws_script ?s1 = []" using assms(1) by simp
  note f = thumbnail_step_open [OF o1 t]
  from f obtain t' where rt: "rt = Inr t'" and tf: "thumbnail_fails env info \<longrightarrow> t' = None"
    by blast
  from f obtain th where th: "ws_sent s2 = ws_sent ?s1 @ th"
      "progresses th = [] \<or> progresses th = [95]"
    by blast
  from f have s2: "ws_script s2 = []" "ws_accept s2 = ws_accept s" "downloads s2 = downloads s"
      "ws_scheduled s2 = ws_scheduled s"
    by simp_all
  from f have "files s2 (mp3_path_of ydl) = files ?s1 (mp3_path_of ydl)"
    using suffix_mp3_path_of by blast
  then have fs: "files s2 (mp3_path_of ydl) = Some bytes" using assms(2) by simp
  have eq: "after_download env Client out_folder m ydl title info s
          = (Inr (Some (mp3_path_of ydl), t'),
             s2\<lparr>ws_sent := ws_sent s2 @ [progress_msg 100 Ready]\<rparr>)"
    using assms(1-3) t rt s2(1)
    by (auto simp add: after_download_def mp3_path_of_def over_limit_def Let_def io_bind_def
        io_get_def io_return_def send_json_open)
  then have r: "r = Inr (Some (mp3_path_of ydl), t')"
    and s': "s' = s2\<lparr>ws_sent := ws_sent s2 @ [progress_msg 100 Ready]\<rparr>"
    using assms(4) by simp_all
  have "ws_sent s' = ws_sent s @ ([progress_msg 90 Fetching_thumbnail] @ th @ [progress_msg 100 Ready])"
    using s' th(1) by simp
  moreover have "progresses ([progress_msg 90 Fetching_thumbnail] @ th @ [progress_msg 100 Ready])
                   = [90, 100]
                 \<or> progresses ([progress_msg 90 Fetching_thumbnail] @ th @ [progress_msg 100 Ready])
                   = [90, 95, 100]"
    using th(2) by auto
  ultimately have "\<exists>ms. ws_sent s' = ws_sent s @ ms
               \<and> (progresses ms = [90, 100] \<or> progresses ms = [90, 95, 100])"
    by blast
  then show ?thesis using r tf s' s2 fs by simp
qed

lemma downloaded_simps [simp]:
  "ws_script (downloaded ydl title s) = ws_script s"
  "ws_accept (downloaded ydl title s) = ws_accept s"
  "downloads (downloaded ydl title s) = downloads s"
  "files (downloaded ydl title s) = files s ++ map_of (written ydl)"
  "ws_sent (downloaded ydl title s) = ws_sent s
          @ [progress_msg 5 Fetching_info, progress_msg 10 (Start_download title)]"
  "ws_scheduled (downloaded ydl title s) = ws_scheduled s
          @ map (Pair (length (ws_sent s) + 2)) (List.map_filter hook_message (hook_calls ydl))"
  by (simp_all add: downloaded_def)

lemma download_body_probe_fails:
  assumes "ws_script s = []" and "probe (ydl_of env url m) = Inl e"
  shows "download_body env url Client out_folder m s
           = (Inl e, s\<lparr>ws_sent := ws_sent s @ [progress_msg 5 Fetching_info]\<rparr>)"
  using assms
  by (simp add: download_body_def ydl_of_def Let_def io_bind_def send_json_open
      extract_info_probe_def)

lemma download_body_fetch_fails:
  assumes "ws_script s = []" and "probe (ydl_of env url m) = Inr info0"
    and "fetched (ydl_of env url m) = Inl e"
  shows "download_body env url Client out_folder m s
           = (Inl e, downloaded (ydl_of env url m) (title_of info0) s)"
  using assms
  by (simp add: download_body_def ydl_of_def Let_def io_bind_def send_json_open
      extract_info_probe_def extract_info_download_def fold_hook_open downloaded_def
      title_of_def)

lemma download_body_fetched:
  assumes "ws_script s = []" and "probe (ydl_of env url m) = Inr info0"
    and "fetched (ydl_of env url m) = Inr info"
  shows "download_body env url Client out_folder m s
           = after_download env Client out_folder m (ydl_of env url m) (title_of info0) info
               (downloaded (ydl_of env url m) (title_of info0) s)"
  using assms
  by (simp add: download_body_def ydl_of_def Let_def io_bind_def send_json_open
      extract_info_probe_def extract_info_download_def fold_hook_open downloaded_def
      title_of_def)

lemma download_audio_caught:
  assumes "download_body env url Client out_folder m s = (Inl e, s1)" and "ws_script s1 = []"
  shows "download_audio env url Client out_folder m s
           = (Inr (None, None), s1\<lparr>ws_sent := ws_sent s1 @ [progress_msg 0 (Error_text e)]\<rparr>)"
  using assms
  by (simp add: download_audio_def io_try_def io_bind_def io_return_def send_json_open)

lemma download_audio_returned:
  assumes "download_body env url Client out_folder m s = (Inr x, s1)"
  shows "download_audio env url Client out_folder m s = (Inr x, s1)"
  using assms by (simp add: download_audio_def io_try_def)

lemma download_audio_open:
  assumes o: "ws_script s = []"
    and d: "download_audio env url Client out_folder m s = (r, s')"
  shows "ws_script s' = [] \<and> ws_accept s' = ws_accept s \<and> downloads s' = downloads s
         \<and> (\<exists>ms. ws_sent s' = ws_sent s @ ms
              \<and> (if succeeds env url m s
                  then (\<exists>t. r = Inr (Some (mp3_path_of (ydl_of env url m)), t)
                          \<and> (\<forall>info. fetched (ydl_of env url m) = Inr info
                                \<longrightarrow> thumbnail_fails env info \<longrightarrow> t = None))
                       \<and> files s' (mp3_path_of (ydl_of env url m)) \<noteq> None
                       \<and> (progresses ms = [5, 10, 90, 100]
                            \<or> progresses ms = [5, 10, 90, 95, 100])
                       \<and> ws_scheduled s' = ws_scheduled s
                            @ map (Pair (length (ws_sent s) + 2))
                                (List.map_filter hook_message (hook_calls (ydl_of env url m)))
                  else r = Inr (None, None)
                       \<and> (artifact env url m s \<noteq> None
                            \<longrightarrow> files s' (mp3_path_of (ydl_of env url m)) = None)))"
proof (cases "probe (ydl_of env url m)")
  case (Inl e)
  have "download_audio env url Client out_folder m s
          = (Inr (None, None),
             s\<lparr>ws_sent := ws_sent s @ [progress_msg 5 Fetching_info, progress_msg 0 (Error_text e)]\<rparr>)"
    using download_audio_caught [OF download_body_probe_fails [OF o Inl]] o by simp
  then show ?thesis using d Inl o by (auto simp: succeeds_def artifact_def Let_def)
next
  case (Inr info0)
  note p = this
  let ?ydl = "ydl_of env url m"
  let ?s3 = "downloaded ?ydl (title_of info0) s"
  have o3: "ws_script ?s3 = []" using o by simp
  show ?thesis
  proof (cases "fetched ?ydl")
    case (Inl e)
    have "download_audio env url Client out_folder m s
            = (Inr (None, None), ?s3\<lparr>ws_sent := ws_sent ?s3 @ [progress_msg 0 (Error_text e)]\<rparr>)"
      using download_audio_caught [OF download_body_fetch_fails [OF o p Inl]] o3 by simp
    then show ?thesis using d Inl p o by (auto simp: succeeds_def artifact_def Let_def)
  next
    case (Inr info)
    note b = download_body_fetched [OF o p Inr, of out_folder]
    have art: "artifact env url m s = files ?s3 (mp3_path_of ?ydl)"
      using p Inr by (simp add: artifact_def Let_def)
    show ?thesis
    proof (cases "files ?s3 (mp3_path_of ?ydl)")
      case None
      have "download_audio env url Client out_folder m s
              = (Inr (None, None), ?s3\<lparr>ws_sent := ws_sent ?s3 @ [progress_msg 0 Mp3_not_created]\<rparr>)"
        using after_download_missing [OF o3 None] b by (simp add: download_audio_returned)
      moreover have a0: "artifact env url m s = None"
        unfolding art by (rule None)
      moreover have "\<not> succeeds env url m s"
        unfolding succeeds_def a0 by simp
      ultimately show ?thesis using d o by auto
    next
      case (Some bytes)
      show ?thesis
      proof (cases "over_limit bytes m")
        case True
        have "download_audio env url Client out_folder m s
              = (Inr (None, None),
                 ?s3\<lparr>files := (files ?s3)(mp3_path_of ?ydl := None),
                   ws_sent := ws_sent ?s3
                     @ [progress_msg 0 (Over_limit (real bytes / (1024 * 1024)) m)]\<rparr>)"
          using after_download_over [OF o3 Some True] b by (simp add: download_audio_returned)
        moreover have a1: "artifact env url m s = Some bytes"
          unfolding art by (rule Some)
        moreover have "\<not> succeeds env url m s"
          unfolding succeeds_def a1 using True by simp
        ultimately show ?thesis using d o by auto
      next
        case False
        obtain ra sa where a: "after_download env Client out_folder m ?ydl (title_of info0) info ?s3
                                 = (ra, sa)"
          by (cases "after_download env Client out_folder m ?ydl (title_of info0) info ?s3")
        note f = after_download_fits [OF o3 Some False a]
        from f obtain t where ra: "ra = Inr (Some (mp3_path_of ?ydl), t)"
          and tf: "thumbnail_fails env info \<longrightarrow> t = None" by blast
        from f obtain ms where ms: "ws_sent sa = ws_sent ?s3 @ ms"
          "progresses ms = [90, 100] \<or> progresses ms = [90, 95, 100]" by blast
        have "download_audio env url Client out_folder m s = (ra, sa)"
          using b a ra by (simp add: download_audio_returned)
        then have r: "r = ra" and s': "s' = sa" using d by simp_all
        let ?all = "[progress_msg 5 Fetching_info, progress_msg 10 (Start_download (title_of info0))]
                    @ ms"
        have w: "ws_sent s' = ws_sent s @ ?all" using ms(1) s' by simp
        have pr: "progresses ?all = [5, 10, 90, 100] \<or> progresses ?all = [5, 10, 90, 95, 100]"
          using ms(2) by auto
        have sc: "ws_scheduled s' = ws_scheduled s
                    @ map (Pair (length (ws_sent s) + 2))
                        (List.map_filter hook_message (hook_calls ?ydl))"
          using f s' by simp
        have a2: "artifact env url m s = Some bytes"
          unfolding art by (rule Some)
        have su: "succeeds env url m s"
          unfolding succeeds_def a2 using False by simp
        have "\<exists>ms. ws_sent s' = ws_sent s @ ms
              \<and> (\<exists>t. r = Inr (Some (mp3_path_of ?ydl), t)
                          \<and> (\<forall>info. fetched ?ydl = Inr info
                                \<longrightarrow> thumbnail_fails env info \<longrightarrow> t = None))
              \<and> files s' (mp3_path_of ?ydl) \<noteq> None
              \<and> (progresses ms = [5, 10, 90, 100] \<or> progresses ms = [5, 10, 90, 95, 100])"
          using w pr r ra tf Inr f s' by (intro exI [of _ ?all]) simp
        then show ?thesis using su f s' sc by simp
      qed
    qed
  qed
qed

section \<open>The terminal step and the whole streaming run\<close>

lemma thumbnail_entry_cases:
  "thumbnail_entry t s = []
   \<or> (\<exists>p. t = Some p \<and> thumbnail_entry t s = [(''thumbnail_url'', Str (''/api/file/'' @ basename p))])"
  by (auto simp: thumbnail_entry_def existing_def split: option.splits)

lemma thumbnail_entry_None [simp]: "thumbnail_entry None s = []"
  by (simp add: thumbnail_entry_def existing_def)

lemma success_msg_keys:
  "map_of (success_msg task_id p bytes (thumbnail_entry t s)) ''message'' = Some (Txt Download_complete)"
  "map_of (success_msg task_id p bytes (thumbnail_entry t s)) ''error'' = None"
  "map_of (success_msg task_id p bytes (thumbnail_entry t s)) ''task_id'' = Some (Str task_id)"
  "map_of (success_msg task_id p bytes (thumbnail_entry t s)) ''download_url''
     = Some (Str (''/api/file/'' @ basename p))"
  "progress_of (success_msg task_id p bytes (thumbnail_entry t s)) = None"
  using thumbnail_entry_cases [of t s]
  by (auto simp: success_msg_def progress_of_def)

lemma failure_msg_progress [simp]: "progress_of (failure_msg task_id maxsize) = None"
  by (simp add: failure_msg_def progress_of_def)

lemma finish_task_found:
  assumes "ws_script s = []" and "downloads s task_id = Some j"
    and "existing mp3_path s = Some (p, bytes)"
  shows "finish_task task_id maxsize (mp3_path, thumb_path) s
           = (Inr (),
              s\<lparr>downloads := (downloads s)(task_id \<mapsto> completed j mp3_path thumb_path (now s)),
                ws_sent := ws_sent s
                  @ [success_msg task_id p bytes (thumbnail_entry thumb_path s)]\<rparr>)"
proof -
  let ?s1 = "update_download task_id
               [Status ''completed'', Progress 100, Mp3_path mp3_path, Thumb_path thumb_path] s"
  have s1: "?s1 = s\<lparr>downloads := (downloads s)(task_id \<mapsto> completed j mp3_path thumb_path (now s))\<rparr>"
    using assms(2) by (simp add: update_download_def completed_def)
  have t: "thumbnail_entry thumb_path ?s1 = thumbnail_entry thumb_path s"
    unfolding s1 by (simp add: thumbnail_entry_def existing_def split: option.splits)
  show ?thesis
    using assms(1,3) t
    by (simp add: finish_task_def io_bind_def io_get_def io_modify_def send_json_open
        success_msg_def s1)
qed

lemma finish_task_missing:
  assumes "ws_script s = []" and "downloads s task_id = Some j"
    and "existing mp3_path s = None"
  shows "finish_task task_id maxsize (mp3_path, thumb_path) s
           = (Inr (),
              s\<lparr>downloads := (downloads s)(task_id \<mapsto> failed j maxsize (now s)),
                ws_sent := ws_sent s @ [failure_msg task_id maxsize]\<rparr>)"
  using assms
  by (simp add: finish_task_def io_bind_def io_get_def io_modify_def send_json_open
      failure_msg_def update_download_def failed_def)

lemma progress_of_started [simp]: "progress_of (started_msg url task_id) = Some 0"
  by (simp add: started_msg_def progress_of_def)

lemma artifact_ws_sent [simp]: "artifact env url m (s\<lparr>ws_sent := x\<rparr>) = artifact env url m s"
  by (simp add: artifact_def Let_def split: sum.splits)

lemma succeeds_ws_sent [simp]: "succeeds env url m (s\<lparr>ws_sent := x\<rparr>) = succeeds env url m s"
  by (simp add: succeeds_def)

lemma mp3_path_of_nonempty [simp]: "mp3_path_of ydl \<noteq> []"
  by (simp add: mp3_path_of_def)

lemma run_task_open:
  assumes o: "ws_script s = []"
    and j: "downloads s task_id = Some j"
    and rt: "run_task env task_id url m s = (r, s')"
  shows "r = Inr () \<and> ws_script s' = [] \<and> ws_accept s' = ws_accept s
         \<and> (\<exists>ms final. ws_sent s' = ws_sent s @ ms @ [final]
              \<and> (if succeeds env url m s
                  then (\<exists>t u bytes.
                          downloads s' = (downloads s)(task_id \<mapsto>
                            completed j (Some (mp3_path_of (ydl_of env url m))) t u)
                          \<and> (\<forall>info. fetched (ydl_of env url m) = Inr info
                                \<longrightarrow> thumbnail_fails env info \<longrightarrow> t = None)
                          \<and> final = success_msg task_id (mp3_path_of (ydl_of env url m)) bytes
                                      (thumbnail_entry t s'))
                       \<and> files s' (mp3_path_of (ydl_of env url m)) \<noteq> None
                       \<and> (progresses ms = [0, 5, 10, 90, 100]
                            \<or> progresses ms
                                = [0, 5, 10, 90, 95, 100])
                       \<and> ws_scheduled s' = ws_scheduled s
                            @ map (Pair (length (ws_sent s) + 3))
                                (List.map_filter hook_message (hook_calls (ydl_of env url m)))
                  else (\<exists>u. downloads s' = (downloads s)(task_id \<mapsto> failed j m u))
                       \<and> (artifact env url m s \<noteq> None
                            \<longrightarrow> files s' (mp3_path_of (ydl_of env url m)) = None)
                       \<and> final = failure_msg task_id m))"
proof -
  let ?mp3 = "mp3_path_of (ydl_of env url m)"
  let ?s1 = "s\<lparr>ws_sent := ws_sent s @ [started_msg url task_id]\<rparr>"
  obtain ra s2 where da: "download_audio env url Client DOWNLOAD_FOLDER m ?s1 = (ra, s2)"
    by (cases "download_audio env url Client DOWNLOAD_FOLDER m ?s1")
  have o1: "ws_script ?s1 = []" using o by simp
  note f = download_audio_open [OF o1 da]
  from f have s2: "ws_script s2 = []" "ws_accept s2 = ws_accept s" "downloads s2 = downloads s"
    by simp_all
  from f obtain ms where ms: "ws_sent s2 = ws_sent ?s1 @ ms" and
    c: "if succeeds env url m s
        then (\<exists>t. ra = Inr (Some ?mp3, t)
                \<and> (\<forall>info. fetched (ydl_of env url m) = Inr info
                      \<longrightarrow> thumbnail_fails env info \<longrightarrow> t = None))
             \<and> files s2 ?mp3 \<noteq> None
             \<and> (progresses ms = [5, 10, 90, 100]
                  \<or> progresses ms = [5, 10, 90, 95, 100])
             \<and> ws_scheduled s2 = ws_scheduled s
                  @ map (Pair (length (ws_sent s) + 3))
                      (List.map_filter hook_message (hook_calls (ydl_of env url m)))
        else ra = Inr (None, None)
             \<and> (artifact env url m s \<noteq> None \<longrightarrow> files s2 ?mp3 = None)"
    by auto
  have j2: "downloads s2 task_id = Some j" using s2 j by simp
  have run: "\<And>x. ra = Inr x \<Longrightarrow> run_task env task_id url m s = finish_task task_id m x s2"
    using o da by (simp add: run_task_def io_bind_def send_json_open started_msg_def)
  let ?pre = "started_msg url task_id # ms"
  have pre: "ws_sent s2 = ws_sent s @ ?pre" using ms by simp
  show ?thesis
  proof (cases "succeeds env url m s")
    case True
    with c obtain t where ra: "ra = Inr (Some ?mp3, t)"
      and tf: "\<forall>info. fetched (ydl_of env url m) = Inr info
                      \<longrightarrow> thumbnail_fails env info \<longrightarrow> t = None"
      and fs: "files s2 ?mp3 \<noteq> None"
      and pr: "progresses ms = [5, 10, 90, 100]
                  \<or> progresses ms = [5, 10, 90, 95, 100]"
      and sc: "ws_scheduled s2 = ws_scheduled s
                  @ map (Pair (length (ws_sent s) + 3))
                      (List.map_filter hook_message (hook_calls (ydl_of env url m)))"
      by auto
    from fs obtain bytes where b: "files s2 ?mp3 = Some bytes" by auto
    then have ex: "existing (Some ?mp3) s2 = Some (?mp3, bytes)"
      by (simp add: existing_def)
    let ?s3 = "s2\<lparr>downloads := (downloads s2)(task_id \<mapsto> completed j (Some ?mp3) t (now s2)),
                ws_sent := ws_sent s2 @ [success_msg task_id ?mp3 bytes (thumbnail_entry t s2)]\<rparr>"
    have "run_task env task_id url m s = (Inr (), ?s3)"
      using run [OF ra] finish_task_found [OF s2(1) j2 ex] by simp
    then have r: "r = Inr ()" and s': "s' = ?s3" using rt by simp_all
    have te: "thumbnail_entry t s' = thumbnail_entry t s2"
      unfolding s' by (simp add: thumbnail_entry_def existing_def split: option.splits)
    have w: "ws_sent s' = ws_sent s @ ?pre @ [success_msg task_id ?mp3 bytes (thumbnail_entry t s')]"
      unfolding te using pre s' by simp
    have dl: "downloads s' = (downloads s)(task_id \<mapsto> completed j (Some ?mp3) t (now s2))"
      using s' s2 by simp
    have fz: "files s' ?mp3 \<noteq> None" using s' fs by simp
    have pp: "progresses ?pre = [0, 5, 10, 90, 100]
                  \<or> progresses ?pre = [0, 5, 10, 90, 95, 100]"
      using pr by (auto simp: progresses_Cons)
    have ws: "ws_script s' = []" "ws_accept s' = ws_accept s" using s' s2 by simp_all
    have e1: "\<exists>t' u b. downloads s' = (downloads s)(task_id \<mapsto> completed j (Some ?mp3) t' u)
                \<and> (\<forall>info. fetched (ydl_of env url m) = Inr info
                      \<longrightarrow> thumbnail_fails env info \<longrightarrow> t' = None)
                \<and> success_msg task_id ?mp3 bytes (thumbnail_entry t s')
                    = success_msg task_id ?mp3 b (thumbnail_entry t' s')"
      using dl tf by blast
    have "\<exists>ms final. ws_sent s' = ws_sent s @ ms @ [final]
            \<and> (\<exists>t' u b. downloads s' = (downloads s)(task_id \<mapsto> completed j (Some ?mp3) t' u)
                \<and> (\<forall>info. fetched (ydl_of env url m) = Inr info
                      \<longrightarrow> thumbnail_fails env info \<longrightarrow> t' = None)
                \<and> final = success_msg task_id ?mp3 b (thumbnail_entry t' s'))
            \<and> files s' ?mp3 \<noteq> None
            \<and> (progresses ms = [0, 5, 10, 90, 100]
                  \<or> progresses ms = [0, 5, 10, 90, 95, 100])"
      using w e1 fz pp by blast
    moreover have "ws_scheduled s' = ws_scheduled s
                  @ map (Pair (length (ws_sent s) + 3))
                      (List.map_filter hook_message (hook_calls (ydl_of env url m)))"
      using sc s' by simp
    ultimately show ?thesis using True r ws by simp
  next
    case False
    with c have ra: "ra = Inr (None, None)"
      and fs: "artifact env url m s \<noteq> None \<longrightarrow> files s2 ?mp3 = None"
      by auto
    have ex: "existing None s2 = None" by (simp add: existing_def)
    let ?s3 = "s2\<lparr>downloads := (downloads s2)(task_id \<mapsto> failed j m (now s2)),
                ws_sent := ws_sent s2 @ [failure_msg task_id m]\<rparr>"
    have "run_task env task_id url m s = (Inr (), ?s3)"
      using run [OF ra] finish_task_missing [OF s2(1) j2 ex] by simp
    then have r: "r = Inr ()" and s': "s' = ?s3" using rt by simp_all
    have w: "ws_sent s' = ws_sent s @ ?pre @ [failure_msg task_id m]"
      using pre s' by simp
    have "downloads s' = (downloads s)(task_id \<mapsto> failed j m (now s2))"
      using s' s2 by simp
    then have dl: "\<exists>u. downloads s' = (downloads s)(task_id \<mapsto> failed j m u)"
      by blast
    have fz: "artifact env url m s \<noteq> None \<longrightarrow> files s' ?mp3 = None" using s' fs by simp
    have ws: "ws_script s' = []" "ws_accept s' = ws_accept s" using s' s2 by simp_all
    have "\<exists>ms final. ws_sent s' = ws_sent s @ ms @ [final]
            \<and> (\<exists>u. downloads s' = (downloads s)(task_id \<mapsto> failed j m u))
            \<and> (artifact env url m s \<noteq> None \<longrightarrow> files s' ?mp3 = None)
            \<and> final = failure_msg task_id m"
      using w dl fz by blast
    then show ?thesis using False r ws by simp
  qed
qed

lemma artifact_files: "files s1 = files s2 \<Longrightarrow> artifact env url m s1 = artifact env url m s2"
  by (simp add: artifact_def Let_def split: sum.splits)

lemma succeeds_files: "files s1 = files s2 \<Longrightarrow> succeeds env url m s1 = succeeds env url m s2"
  by (simp add: succeeds_def artifact_files [of s1 s2])

lemma thumbnail_entry_files: "files s1 = files s2 \<Longrightarrow> thumbnail_entry t s1 = thumbnail_entry t s2"
  by (simp add: thumbnail_entry_def existing_def split: option.splits)

lemma websocket_download_open:
  assumes v: "valid_request url m"
    and o: "connection_open s"
    and w: "websocket_download env connection_id task_id url m s = (r, s')"
  shows "r = Inr ()
         \<and> (\<exists>ms final. ws_sent s' = ws_sent s @ ms @ [final]
              \<and> (if succeeds env url m s
                  then (\<exists>t u bytes.
                          downloads s' = (downloads s)(task_id \<mapsto>
                            completed (created url m (now s))
                              (Some (mp3_path_of (ydl_of env url m))) t u)
                          \<and> (\<forall>info. fetched (ydl_of env url m) = Inr info
                                \<longrightarrow> thumbnail_fails env info \<longrightarrow> t = None)
                          \<and> final = success_msg task_id (mp3_path_of (ydl_of env url m)) bytes
                                      (thumbnail_entry t s'))
                       \<and> files s' (mp3_path_of (ydl_of env url m)) \<noteq> None
                       \<and> (progresses ms = [0, 5, 10, 90, 100]
                            \<or> progresses ms
                                = [0, 5, 10, 90, 95, 100])
                       \<and> ws_scheduled s' = ws_scheduled s
                            @ map (Pair (length (ws_sent s) + 3))
                                (List.map_filter hook_message (hook_calls (ydl_of env url m)))
                  else (\<exists>u. downloads s' = (downloads s)(task_id \<mapsto>
                              failed (created url m (now s)) m u))
                       \<and> (artifact env url m s \<noteq> None
                            \<longrightarrow> files s' (mp3_path_of (ydl_of env url m)) = None)
                       \<and> final = failure_msg task_id m))"
proof -
  let ?s1 = "create_download_task task_id url m
               (s\<lparr>active_connections := insert connection_id (active_connections s)\<rparr>)"
  obtain rr s2 where rt: "run_task env task_id url m ?s1 = (rr, s2)"
    by (cases "run_task env task_id url m ?s1")
  have o1: "ws_script ?s1 = []" using o by (simp add: connection_open_def create_download_task_def)
  have j1: "downloads ?s1 task_id = Some (created url m (now s))"
    by (simp add: create_download_task_def created_def)
  have d1: "(downloads ?s1)(task_id \<mapsto> x) = (downloads s)(task_id \<mapsto> x)" for x
    by (simp add: create_download_task_def)
  have f1: "files ?s1 = files s" and w1: "ws_sent ?s1 = ws_sent s"
      "ws_scheduled ?s1 = ws_scheduled s"
    by (simp_all add: create_download_task_def)
  note f = run_task_open [OF o1 j1 rt]
  from f have rr: "rr = Inr ()" by simp
  have "websocket_download env connection_id task_id url m s = (Inr (), on_exit connection_id s2)"
    using v o rt rr
    by (simp add: websocket_download_alt io_finally_def io_try_def websocket_body_valid
        connection_open_def)
  then have r: "r = Inr ()" and s': "s' = on_exit connection_id s2" using w by simp_all
  have p: "ws_sent s' = ws_sent s2" "downloads s' = downloads s2" "files s' = files s2"
      "ws_scheduled s' = ws_scheduled s2"
    unfolding s' by (simp_all add: on_exit_def)
  have te: "thumbnail_entry t s2 = thumbnail_entry t s'" for t
    using thumbnail_entry_files [OF p(3) [symmetric]] .
  show ?thesis
    using f unfolding p d1 w1 te succeeds_files [OF f1] artifact_files [OF f1]
    using r by simp
qed

section \<open>Artifact retrieval and platform classification\<close>

lemma contains_single: "contains [c] s \<longleftrightarrow> c \<in> set s"
  by (induction s) auto

lemma serve_file_served:
  assumes "serve_file file_name s = (Inr resp, paths)"
  shows "resp_path resp = DOWNLOAD_FOLDER @ ''/'' @ file_name
         \<and> CHR ''/'' \<notin> set file_name \<and> backslash \<notin> set file_name
         \<and> \<not> contains ''..'' file_name \<and> set paths = {resp_path resp}"
proof -
  from assms have n: "\<not> contains ''..'' file_name" "\<not> contains ''/'' file_name"
      "\<not> contains [backslash] file_name"
    by (auto simp: serve_file_def split: if_splits)
  then have sl: "CHR ''/'' \<notin> set file_name" "backslash \<notin> set file_name"
    using contains_single by auto
  then have "\<not> prefix ''/'' file_name" by (cases file_name) auto
  then have pj: "path_join DOWNLOAD_FOLDER file_name = DOWNLOAD_FOLDER @ ''/'' @ file_name"
    by (simp add: path_join_def DOWNLOAD_FOLDER_def suffix_def)
  from assms n have "resp_path resp = path_join DOWNLOAD_FOLDER file_name"
      "set paths = {path_join DOWNLOAD_FOLDER file_name}"
    by (auto simp: serve_file_def Let_def split: if_splits)
  then show ?thesis using pj n sl by simp
qed

text \<open>
  C8. A file name containing \<open>..\<close>, \<open>/\<close> or \<open>\\\<close> is rejected with status 400 and no
  path is handed to the file system; whenever a file is served, its path is the storage
  directory, a slash and the bare name, which holds no separator and no \<open>..\<close>.
\<close>

theorem serve_file_rejects_traversal:
  "(contains ''..'' file_name \<or> contains ''/'' file_name \<or> contains [backslash] file_name
      \<longrightarrow> serve_file file_name s = (Inl (HTTPException 400 Bad_file_name), []))
   \<and> (\<forall>resp paths. serve_file file_name s = (Inr resp, paths)
        \<longrightarrow> resp_path resp = DOWNLOAD_FOLDER @ ''/'' @ file_name
            \<and> CHR ''/'' \<notin> set file_name \<and> backslash \<notin> set file_name
            \<and> \<not> contains ''..'' file_name \<and> set paths = {resp_path resp})"
  using serve_file_served by (auto simp: serve_file_def)

theorem serve_file_rejects_traversal_witness:
  "contains ''..'' ''../../etc/passwd''
   \<and> serve_file ''../../etc/passwd'' world0 = (Inl (HTTPException 400 Bad_file_name), [])
   \<and> fst (serve_file ''Song.mp3'' (world0\<lparr>files := [''download/Song.mp3'' \<mapsto> 5]\<rparr>))
       = Inr \<lparr>resp_path = ''download/Song.mp3'', resp_filename = ''Song.mp3'',
              resp_media_type = ''audio/mpeg'',
              resp_headers = [(''Cache-Control'', ''public, max-age=3600'')]\<rparr>"
proof -
  have c: "contains ''..'' ''../../etc/passwd''" by simp
  have "serve_file ''../../etc/passwd'' world0 = (Inl (HTTPException 400 Bad_file_name), [])"
    using serve_file_rejects_traversal [of "''../../etc/passwd''" world0] c by blast
  moreover have "fst (serve_file ''Song.mp3'' (world0\<lparr>files := [''download/Song.mp3'' \<mapsto> 5]\<rparr>))
       = Inr \<lparr>resp_path = ''download/Song.mp3'', resp_filename = ''Song.mp3'',
              resp_media_type = ''audio/mpeg'',
              resp_headers = [(''Cache-Control'', ''public, max-age=3600'')]\<rparr>"
    by (simp add: serve_file_def world0_def backslash_def path_join_def DOWNLOAD_FOLDER_def
        splitext_def rfind_def lower_def lower_char_def Let_def suffix_def)
  ultimately show ?thesis using c by simp
qed

lemma find_coming_soon:
  assumes "is_coming_soon url"
  obtains p where "find (\<lambda>p. contains p (lower url)) COMING_SOON_PLATFORMS = Some p"
    and "p \<in> set COMING_SOON_PLATFORMS" and "contains p (lower url)"
proof -
  from assms have "find (\<lambda>p. contains p (lower url)) COMING_SOON_PLATFORMS \<noteq> None"
    by (auto simp: is_coming_soon_def list_ex_iff find_None_iff)
  then obtain p where p: "find (\<lambda>p. contains p (lower url)) COMING_SOON_PLATFORMS = Some p"
    by auto
  then have "p \<in> set COMING_SOON_PLATFORMS" "contains p (lower url)"
    by (auto simp: find_Some_iff)
  with p show ?thesis using that by blast
qed

lemma get_platform_unsupported:
  assumes "\<not> is_supported_platform url"
  shows "get_platform_from_url url
           = (case find (\<lambda>p. contains p (lower url)) COMING_SOON_PLATFORMS of
                Some p \<Rightarrow> upper p | None \<Rightarrow> unknown_platform)"
proof -
  from assms have "find (\<lambda>p. contains p (lower url)) SUPPORTED_PLATFORMS = None"
    by (simp add: is_supported_platform_def list_ex_iff find_None_iff)
  then show ?thesis by (simp add: get_platform_from_url_def)
qed

lemma websocket_download_unsupported:
  assumes "\<not> is_supported_platform url" and "\<not> blank url"
    and "0 < maxsize" and "maxsize \<le> MAX_FILE_SIZE_MB" and "connection_open s"
  shows "websocket_download env connection_id task_id url maxsize s
           = (Inr (),
              s\<lparr>active_connections := active_connections s - {connection_id},
                ws_sent := ws_sent s
                  @ [if is_coming_soon url then coming_soon_msg (get_platform_from_url url)
                     else error_msg Unsupported_only_youtube],
                ws_closed := True\<rparr>)"
  using assms
  by (simp add: websocket_download_alt websocket_body_def io_finally_def io_try_def
      io_bind_def io_modify_def ws_accept_call_def connection_open_def send_json_open
      on_exit_def Let_def)

lemma api_download_url_unsupported:
  assumes "\<not> is_supported_platform url" and "url \<noteq> []"
  shows "api_download_url env (Some url) maxsize_arg s
           = (if is_coming_soon url then (Inr (coming_soon_msg (get_platform_from_url url)), s)
              else (Inl (HTTPException 400 Unsupported_platform), s))"
  using assms
  by (simp add: api_download_url_def Let_def io_return_def io_raise_def)

lemma blank_Nil: "blank []"
  by (simp add: blank_def)

text \<open>
  C5. For a submission that passes the checks made before the classification (a non-blank
  URL, a size from 1 to 50, an open connection) and whose URL holds no supported marker:
  if it holds a coming-soon marker, the response carries \<open>coming_soon: true\<close> and the
  upper-cased first marker found as \<open>platform\<close>; otherwise it is the generic
  unsupported-platform error. Either way the Job Store is unchanged. The same holds for the
  plain endpoint, which returns the coming-soon response and raises the error.
\<close>

theorem unsupported_platform_response:
  assumes "\<not> is_supported_platform url" and "\<not> blank url"
    and "0 < maxsize" and "maxsize \<le> MAX_FILE_SIZE_MB" and "connection_open s"
  shows "downloads (snd (websocket_download env connection_id task_id url maxsize s)) = downloads s
         \<and> downloads (snd (api_download_url env (Some url) maxsize_arg s)) = downloads s
         \<and> (if is_coming_soon url
            then \<exists>p m. find (\<lambda>p. contains p (lower url)) COMING_SOON_PLATFORMS = Some p
                   \<and> map_of m ''coming_soon'' = Some (Bool True)
                   \<and> map_of m ''platform'' = Some (Str (upper p))
                   \<and> ws_sent (snd (websocket_download env connection_id task_id url maxsize s))
                       = ws_sent s @ [m]
                   \<and> fst (api_download_url env (Some url) maxsize_arg s) = Inr m
            else ws_sent (snd (websocket_download env connection_id task_id url maxsize s))
                   = ws_sent s @ [[(''error'', Txt Unsupported_only_youtube)]]
                 \<and> fst (api_download_url env (Some url) maxsize_arg s)
                   = Inl (HTTPException 400 Unsupported_platform))"
proof -
  have ne: "url \<noteq> []" using assms(2) blank_Nil by auto
  note w = websocket_download_unsupported [OF assms, of env connection_id task_id]
  note a = api_download_url_unsupported [OF assms(1) ne, of env maxsize_arg s]
  show ?thesis
  proof (cases "is_coming_soon url")
    case True
    then obtain p where p: "find (\<lambda>p. contains p (lower url)) COMING_SOON_PLATFORMS = Some p"
      by (rule find_coming_soon)
    then have g: "get_platform_from_url url = upper p"
      using get_platform_unsupported [OF assms(1)] by simp
    let ?m = "coming_soon_msg (upper p)"
    have "map_of ?m ''coming_soon'' = Some (Bool True)" "map_of ?m ''platform'' = Some (Str (upper p))"
      by (simp_all add: coming_soon_msg_def)
    then have "\<exists>p m. find (\<lambda>p. contains p (lower url)) COMING_SOON_PLATFORMS = Some p
                   \<and> map_of m ''coming_soon'' = Some (Bool True)
                   \<and> map_of m ''platform'' = Some (Str (upper p))
                   \<and> ws_sent (snd (websocket_download env connection_id task_id url maxsize s))
                       = ws_sent s @ [m]
                   \<and> fst (api_download_url env (Some url) maxsize_arg s) = Inr m"
      using p w a True g by (intro exI [of _ p] exI [of _ ?m]) simp
    then show ?thesis using True w a by simp
  next
    case False
    then show ?thesis using w a by (simp add: error_msg_def)
  qed
qed

theorem unsupported_platform_response_witness:
  "ws_sent (snd (websocket_download (sample_env 5) ''c1'' ''t1'' ''https://vk.com/video1'' 15 world0))
     = [[(''error'', Txt (Support_soon ''VK.COM'')), (''coming_soon'', Bool True),
         (''platform'', Str ''VK.COM'')]]
   \<and> downloads (snd (websocket_download (sample_env 5) ''c1'' ''t1'' ''https://vk.com/video1'' 15 world0))
       ''t1'' = None
   \<and> ws_sent (snd (websocket_download (sample_env 5) ''c1'' ''t1'' ''https://example.org/a'' 15 world0))
     = [[(''error'', Txt Unsupported_only_youtube)]]"
proof -
  have l: "lower ''https://vk.com/video1'' = ''https://vk.com/video1''"
      "lower ''https://example.org/a'' = ''https://example.org/a''"
    by (simp_all add: lower_def lower_char_def)
  have u: "upper ''vk.com'' = ''VK.COM''" by code_simp
  have h: "\<not> is_supported_platform ''https://vk.com/video1''" "\<not> blank ''https://vk.com/video1''"
      "\<not> is_supported_platform ''https://example.org/a''" "\<not> blank ''https://example.org/a''"
      "(0::int) < 15" "(15::int) \<le> MAX_FILE_SIZE_MB" "connection_open world0"
    by (simp_all add: is_supported_platform_def SUPPORTED_PLATFORMS_def l blank_def is_space_def
        MAX_FILE_SIZE_MB_def connection_open_def world0_def)
  have cs: "is_coming_soon ''https://vk.com/video1''" "\<not> is_coming_soon ''https://example.org/a''"
    by (simp_all add: is_coming_soon_def COMING_SOON_PLATFORMS_def l)
  have f: "find (\<lambda>p. contains p (lower ''https://vk.com/video1'')) COMING_SOON_PLATFORMS
             = Some ''vk.com''"
    by (simp add: COMING_SOON_PLATFORMS_def l)
  note t1 = unsupported_platform_response [OF h(1,2,5,6,7), of "sample_env 5" "''c1''" "''t1''" None]
  note t2 = unsupported_platform_response [OF h(3,4,5,6,7), of "sample_env 5" "''c1''" "''t1''" None]
  from t1 cs(1) f obtain m where m: "map_of m ''coming_soon'' = Some (Bool True)"
    "ws_sent (snd (websocket_download (sample_env 5) ''c1'' ''t1'' ''https://vk.com/video1'' 15 world0))
       = ws_sent world0 @ [m]"
    by auto
  have d: "downloads (snd (websocket_download (sample_env 5) ''c1'' ''t1'' ''https://vk.com/video1'' 15 world0))
       ''t1'' = None"
    using t1 by (simp add: world0_def)
  have e: "ws_sent (snd (websocket_download (sample_env 5) ''c1'' ''t1'' ''https://example.org/a'' 15 world0))
     = [[(''error'', Txt Unsupported_only_youtube)]]"
    using t2 cs(2) by (simp add: world0_def)
  have "ws_sent (snd (websocket_download (sample_env 5) ''c1'' ''t1'' ''https://vk.com/video1'' 15 world0))
     = [[(''error'', Txt (Support_soon ''VK.COM'')), (''coming_soon'', Bool True),
         (''platform'', Str ''VK.COM'')]]"
    using websocket_download_unsupported [OF h(1,2,5,6,7), of "sample_env 5" "''c1''" "''t1''"] cs(1)
      get_platform_unsupported [OF h(1)] f u
    by (simp add: world0_def coming_soon_msg_def)
  then show ?thesis using d e by simp
qed

section \<open>Job creation and size validation\<close>

lemma sample_url_valid: "valid_request ''https://youtu.be/abc123'' 15"
  by (simp add: valid_request_def blank_def is_space_def MAX_FILE_SIZE_MB_def
      is_supported_platform_def SUPPORTED_PLATFORMS_def lower_def lower_char_def)

lemma sample_url_supported: "is_supported_platform ''https://youtu.be/abc123''"
  using sample_url_valid by (simp add: valid_request_def)


lemma sample_mp3_path: "mp3_path_of (sample_ydl bytes) = ''download/Song.mp3''"
proof -
  have "mp3_path_of (sample_ydl bytes) = fst (splitext ''download/Song.webm'') @ ''.mp3''"
    by (simp add: mp3_path_of_def) (simp add: sample_ydl_def)
  also have "\<dots> = ''download/Song.mp3''"
    by (simp add: splitext_def rfind_def Let_def)
  finally show ?thesis .
qed

lemma sample_ydl_of: "ydl_of (sample_env bytes) url m = sample_ydl bytes"
  by (simp add: ydl_of_def sample_env_def)

lemma sample_ydl_fields:
  "probe (sample_ydl bytes) = Inr sample_info"
  "fetched (sample_ydl bytes) = Inr sample_info"
  "written (sample_ydl bytes) = [(''download/Song.mp3'', bytes)]"
  "hook_calls (sample_ydl bytes) = [Downloading (Some 3), Finished]"
  by (simp_all add: sample_ydl_def)

lemma sample_artifact: "artifact (sample_env bytes) url m world0 = Some bytes"
  by (simp add: artifact_def sample_ydl_of sample_mp3_path sample_ydl_fields Let_def)

text \<open>
  C2, as stated, fails on the plain endpoint: a supported URL with size 15 is served (the
  success payload is returned) and the Job Store, empty before, is empty after.
\<close>

theorem plain_endpoint_creates_no_job:
  "is_supported_platform ''https://youtu.be/abc123''
   \<and> fst (api_download_url (sample_env 2097152) (Some ''https://youtu.be/abc123'')
                 (Some 15) world0)
       = Inr [(''message'', Txt File_ready), (''download_url'', Str ''/api/file/Song.mp3''),
              (''file_size_mb'', Num 2)]
   \<and> dom (downloads (snd (api_download_url (sample_env 2097152) (Some ''https://youtu.be/abc123'')
                 (Some 15) world0))) = {}"
proof -
  have "fst (api_download_url (sample_env 2097152) (Some ''https://youtu.be/abc123'')
                 (Some 15) world0)
          = Inr [(''message'', Txt File_ready), (''download_url'', Str ''/api/file/Song.mp3''),
                 (''file_size_mb'', Num 2)]"
    using sample_url_supported
    by (simp add: api_download_url_def download_audio_def download_body_def after_download_def
        thumbnail_step_def fetch_thumbnail_def http_download_def extract_info_probe_def
        extract_info_download_def progress_hook_def schedule_send_def send_json_Mock io_bind_def io_try_def
        io_return_def io_raise_def io_get_def existing_def thumbnail_entry_def round2_def
        basename_def rfind_def splitext_def path_join_def DOWNLOAD_FOLDER_def safe_filename_def
        unsafe_chars_def dquote_def backslash_def lower_def lower_char_def sample_env_def
        sample_ydl_def sample_info_def world0_def Let_def suffix_def)
  moreover have "dom (downloads (snd (api_download_url (sample_env 2097152)
                   (Some ''https://youtu.be/abc123'') (Some 15) world0))) = {}"
    by (simp add: plain_store) (simp add: world0_def)
  ultimately show ?thesis using sample_url_supported by simp
qed

text \<open>
  C2, amended. For every accepted, validated request on the streaming endpoint exactly one
  Job record is inserted: the keys of the Job Store grow by the generated task id and the
  record under every other key is untouched, whatever happens later in the run. The plain
  endpoint never touches the Job Store and inserts none.
\<close>

theorem one_job_per_streaming_request:
  assumes "valid_request url maxsize" and "ws_accept s = None"
  shows "dom (downloads (snd (websocket_download env connection_id task_id url maxsize s)))
           = insert task_id (dom (downloads s))
         \<and> (\<forall>t. t \<noteq> task_id \<longrightarrow>
               downloads (snd (websocket_download env connection_id task_id url maxsize s)) t
                 = downloads s t)
         \<and> downloads (snd (api_download_url env url_arg maxsize_arg s)) = downloads s"
proof -
  let ?s' = "snd (websocket_download env connection_id task_id url maxsize s)"
  have o: "others task_id ?s' = (insert task_id (dom (downloads s)), (downloads s)(task_id := None))"
    using streaming_store_valid [OF assms] .
  then have d: "dom (downloads ?s') = insert task_id (dom (downloads s))"
    and e: "(downloads ?s')(task_id := None) = (downloads s)(task_id := None)"
    by (simp_all add: others_def)
  have "downloads ?s' t = downloads s t" if "t \<noteq> task_id" for t
    using fun_cong [OF e, of t] that by simp
  then show ?thesis using d plain_store by simp
qed

theorem one_job_per_streaming_request_witness:
  "dom (downloads (snd (websocket_download (sample_env 2097152) ''c1'' ''t1''
          ''https://youtu.be/abc123'' 15 world0))) = {''t1''}"
proof -
  have a: "ws_accept world0 = None" by (simp add: world0_def)
  show ?thesis
    using one_job_per_streaming_request [OF sample_url_valid a, of "sample_env 2097152"
        "''c1''" "''t1''" None None]
    by (simp add: world0_def)
qed

lemma websocket_download_size_rejected:
  assumes "maxsize \<le> 0 \<or> maxsize > MAX_FILE_SIZE_MB"
  shows "downloads (snd (websocket_download env connection_id task_id url maxsize s)) = downloads s"
    and "connection_open s \<Longrightarrow>
         ws_sent (snd (websocket_download env connection_id task_id url maxsize s))
           = ws_sent s @ [error_msg (if blank url then Url_empty
                                     else Size_out_of_range MAX_FILE_SIZE_MB)]"
proof -
  have "\<not> valid_request url maxsize" using assms by (auto simp: valid_request_def)
  then show "downloads (snd (websocket_download env connection_id task_id url maxsize s)) = downloads s"
    by (rule streaming_store_invalid)
  show "ws_sent (snd (websocket_download env connection_id task_id url maxsize s))
           = ws_sent s @ [error_msg (if blank url then Url_empty
                                     else Size_out_of_range MAX_FILE_SIZE_MB)]"
    if "connection_open s"
    using assms that
    by (auto simp add: websocket_download_alt websocket_body_def io_finally_def io_try_def
      io_bind_def io_modify_def ws_accept_call_def connection_open_def send_json_open
      on_exit_def Let_def)
qed

text \<open>
  C3 at \<open>maxsize = 100\<close> on the plain endpoint: the size is outside 1 to 50, yet the
  request is carried out, a 60 MB file is left in storage and the success payload is
  returned. The streaming endpoint rejects it (\<open>websocket_download_size_rejected\<close>).
\<close>

theorem plain_endpoint_accepts_oversize:
  "\<not> (0 < (100::int) \<and> (100::int) \<le> MAX_FILE_SIZE_MB)
   \<and> fst (api_download_url (sample_env 62914560) (Some ''https://youtu.be/abc123'')
            (Some 100) world0)
       = Inr [(''message'', Txt File_ready), (''download_url'', Str ''/api/file/Song.mp3''),
              (''file_size_mb'', Num 60)]
   \<and> files (snd (api_download_url (sample_env 62914560) (Some ''https://youtu.be/abc123'')
            (Some 100) world0)) ''download/Song.mp3'' = Some 62914560"
proof -
  have "api_download_url (sample_env 62914560) (Some ''https://youtu.be/abc123'') (Some 100) world0
          = (Inr [(''message'', Txt File_ready), (''download_url'', Str ''/api/file/Song.mp3''),
                  (''file_size_mb'', Num 60)],
             world0\<lparr>files := [''download/Song.mp3'' \<mapsto> 62914560]\<rparr>)"
    using sample_url_supported
    by (simp add: api_download_url_def download_audio_def download_body_def after_download_def
        thumbnail_step_def fetch_thumbnail_def http_download_def extract_info_probe_def
        extract_info_download_def progress_hook_def schedule_send_def send_json_Mock io_bind_def io_try_def
        io_return_def io_raise_def io_get_def existing_def thumbnail_entry_def round2_def
        basename_def rfind_def splitext_def path_join_def DOWNLOAD_FOLDER_def safe_filename_def
        unsafe_chars_def dquote_def backslash_def lower_def lower_char_def sample_env_def
        sample_ydl_def sample_info_def world0_def Let_def suffix_def)
  then show ?thesis by (simp add: MAX_FILE_SIZE_MB_def)
qed

section \<open>Outcomes of a run\<close>

lemma over_limit_valid:
  "valid_request url maxsize \<Longrightarrow>
   over_limit bytes maxsize \<longleftrightarrow> real bytes / (1024 * 1024) > of_int maxsize"
  by (auto simp: over_limit_def valid_request_def)

lemma job_fields:
  "job_status (failed j m u) = ''failed''"
  "job_mp3_path (failed j m u) = job_mp3_path j"
  "job_status (completed j p t u) = ''completed''"
  "job_mp3_path (completed j p t u) = p"
  "job_thumb_path (completed j p t u) = t"
  "job_error (completed j p t u) = job_error j"
  "job_mp3_path (created url m n) = None"
  "job_error (created url m n) = None"
  by (simp_all add: failed_def completed_def created_def)

text \<open>
  On an open connection, for a valid request whose extraction leaves at the predicted mp3
  path a file of more than \<open>maxsize\<close> megabytes: \<open>download_audio\<close> returns no audio path,
  the file is gone from storage after \<open>download_audio\<close> and after the whole run, and the
  Job ends with status \<open>failed\<close> and no audio path.
\<close>

lemma open_connection_oversize:
  assumes "valid_request url maxsize" and "connection_open s"
    and "artifact env url maxsize s = Some bytes"
    and "real bytes / (1024 * 1024) > of_int maxsize"
  shows "fst (download_audio env url Client DOWNLOAD_FOLDER maxsize s) = Inr (None, None)
         \<and> files (snd (download_audio env url Client DOWNLOAD_FOLDER maxsize s))
              (mp3_path_of (ydl_of env url maxsize)) = None
         \<and> files (snd (websocket_download env connection_id task_id url maxsize s))
              (mp3_path_of (ydl_of env url maxsize)) = None
         \<and> (\<exists>j. downloads (snd (websocket_download env connection_id task_id url maxsize s))
                   task_id = Some j
                \<and> job_status j = ''failed'' \<and> job_mp3_path j = None)"
proof -
  have ns: "\<not> succeeds env url maxsize s"
    using assms(3,4) over_limit_valid [OF assms(1)] by (simp add: succeeds_def)
  have o: "ws_script s = []" using assms(2) by (simp add: connection_open_def)
  obtain r s1 where d: "download_audio env url Client DOWNLOAD_FOLDER maxsize s = (r, s1)"
    by (cases "download_audio env url Client DOWNLOAD_FOLDER maxsize s")
  have a: "r = Inr (None, None)" "files s1 (mp3_path_of (ydl_of env url maxsize)) = None"
    using download_audio_open [OF o d] ns assms(3) by auto
  obtain r2 s2 where w: "websocket_download env connection_id task_id url maxsize s = (r2, s2)"
    by (cases "websocket_download env connection_id task_id url maxsize s")
  from websocket_download_open [OF assms(1,2) w] ns assms(3)
  obtain u where b: "downloads s2 = (downloads s)(task_id \<mapsto>
                        failed (created url maxsize (now s)) maxsize u)"
    and c: "files s2 (mp3_path_of (ydl_of env url maxsize)) = None"
    by auto
  have "\<exists>j. downloads s2 task_id = Some j \<and> job_status j = ''failed'' \<and> job_mp3_path j = None"
    unfolding b by (simp add: job_fields)
  then show ?thesis using a c d w by simp
qed

text \<open>
  On an open connection, for a valid request whose audio extraction succeeds (the mp3
  exists and is within the limit), when the thumbnail retrieval fails (no thumbnails, no
  URL, or a failing fetch or write): \<open>download_audio\<close> returns the audio path and no
  thumbnail path, the Job ends \<open>completed\<close> with no thumbnail path and no error, and the
  terminal message is the success message, without \<open>error\<close> and without
  \<open>thumbnail_url\<close>.
\<close>

lemma open_connection_thumbnail_failure:
  assumes "valid_request url maxsize" and "connection_open s"
    and "artifact env url maxsize s = Some bytes"
    and "\<not> real bytes / (1024 * 1024) > of_int maxsize"
    and "fetched (ydl_of env url maxsize) = Inr info"
    and "thumbnail_fails env info"
  shows "fst (download_audio env url Client DOWNLOAD_FOLDER maxsize s)
           = Inr (Some (mp3_path_of (ydl_of env url maxsize)), None)
         \<and> (\<exists>j final.
               downloads (snd (websocket_download env connection_id task_id url maxsize s))
                 task_id = Some j
               \<and> job_status j = ''completed'' \<and> job_thumb_path j = None \<and> job_error j = None
               \<and> job_mp3_path j = Some (mp3_path_of (ydl_of env url maxsize))
               \<and> ws_sent (snd (websocket_download env connection_id task_id url maxsize s)) \<noteq> []
               \<and> last (ws_sent (snd (websocket_download env connection_id task_id url maxsize s)))
                   = final
               \<and> map_of final ''message'' = Some (Txt Download_complete)
               \<and> map_of final ''error'' = None
               \<and> map_of final ''thumbnail_url'' = None)"
proof -
  let ?mp3 = "mp3_path_of (ydl_of env url maxsize)"
  have su: "succeeds env url maxsize s"
    using assms(3,4) over_limit_valid [OF assms(1)] by (simp add: succeeds_def)
  have o: "ws_script s = []" using assms(2) by (simp add: connection_open_def)
  obtain r s1 where d: "download_audio env url Client DOWNLOAD_FOLDER maxsize s = (r, s1)"
    by (cases "download_audio env url Client DOWNLOAD_FOLDER maxsize s")
  have a: "r = Inr (Some ?mp3, None)"
    using download_audio_open [OF o d] su assms(5,6) by auto
  obtain r2 s2 where w: "websocket_download env connection_id task_id url maxsize s = (r2, s2)"
    by (cases "websocket_download env connection_id task_id url maxsize s")
  from websocket_download_open [OF assms(1,2) w] su
  obtain ms final t u b where
    m: "ws_sent s2 = ws_sent s @ ms @ [final]"
    and dl: "downloads s2 = (downloads s)(task_id \<mapsto>
               completed (created url maxsize (now s)) (Some ?mp3) t u)"
    and tf: "\<forall>info. fetched (ydl_of env url maxsize) = Inr info
                \<longrightarrow> thumbnail_fails env info \<longrightarrow> t = None"
    and fin: "final = success_msg task_id ?mp3 b (thumbnail_entry t s2)"
    by auto
  have t: "t = None" using tf assms(5,6) by blast
  have j: "downloads s2 task_id = Some (completed (created url maxsize (now s)) (Some ?mp3) None u)"
    unfolding dl t by simp
  have f: "map_of final ''message'' = Some (Txt Download_complete)"
      "map_of final ''error'' = None" "map_of final ''thumbnail_url'' = None"
    unfolding fin t by (simp_all add: success_msg_def)
  have l: "ws_sent s2 \<noteq> []" "last (ws_sent s2) = final" using m by simp_all
  have "\<exists>j final. downloads s2 task_id = Some j
               \<and> job_status j = ''completed'' \<and> job_thumb_path j = None \<and> job_error j = None
               \<and> job_mp3_path j = Some ?mp3
               \<and> ws_sent s2 \<noteq> [] \<and> last (ws_sent s2) = final
               \<and> map_of final ''message'' = Some (Txt Download_complete)
               \<and> map_of final ''error'' = None
               \<and> map_of final ''thumbnail_url'' = None"
    using j f l by (simp add: job_fields)
  then show ?thesis using a d w by simp
qed

lemma sample_thumbnail_fails: "thumbnail_fails (sample_env bytes) sample_info"
  by (simp add: thumbnail_fails_def sample_info_def sample_env_def)

lemma open_connection_reaches_terminal:
  assumes "valid_request url maxsize" and "connection_open s"
  shows "\<exists>j final.
           downloads (snd (websocket_download env connection_id task_id url maxsize s)) task_id
             = Some j
           \<and> (job_status j = ''completed'' \<or> job_status j = ''failed'')
           \<and> ws_sent (snd (websocket_download env connection_id task_id url maxsize s)) \<noteq> []
           \<and> last (ws_sent (snd (websocket_download env connection_id task_id url maxsize s)))
               = final
           \<and> map_of final ''task_id'' = Some (Str task_id)
           \<and> (map_of final ''message'' = Some (Txt Download_complete)
                \<or> map_of final ''error'' = Some (Txt (Download_failed maxsize)))"
proof -
  obtain r2 s2 where w: "websocket_download env connection_id task_id url maxsize s = (r2, s2)"
    by (cases "websocket_download env connection_id task_id url maxsize s")
  note f = websocket_download_open [OF assms w]
  from f obtain ms final where m: "ws_sent s2 = ws_sent s @ ms @ [final]" by blast
  have l: "ws_sent s2 \<noteq> []" "last (ws_sent s2) = final" using m by simp_all
  show ?thesis
  proof (cases "succeeds env url maxsize s")
    case True
    with f m obtain t u b where
      dl: "downloads s2 = (downloads s)(task_id \<mapsto>
               completed (created url maxsize (now s))
                 (Some (mp3_path_of (ydl_of env url maxsize))) t u)"
      and fin: "final = success_msg task_id (mp3_path_of (ydl_of env url maxsize)) b
                  (thumbnail_entry t s2)"
      by auto
    have "map_of final ''task_id'' = Some (Str task_id)"
        "map_of final ''message'' = Some (Txt Download_complete)"
      unfolding fin by (simp_all add: success_msg_keys)
    then show ?thesis using w l dl by (simp add: job_fields)
  next
    case False
    with f m obtain u where
      dl: "downloads s2 = (downloads s)(task_id \<mapsto> failed (created url maxsize (now s)) maxsize u)"
      and fin: "final = failure_msg task_id maxsize"
      by auto
    have "map_of final ''task_id'' = Some (Str task_id)"
        "map_of final ''error'' = Some (Txt (Download_failed maxsize))"
      unfolding fin by (simp_all add: failure_msg_def)
    then show ?thesis using w l dl by (simp add: job_fields)
  qed
qed

text \<open>
  C1 at a valid request whose client is gone when the first message is sent: whether the
  send raises \<open>WebSocketDisconnect\<close>, or another exception and the error report fails as
  well, the call returns with the Job still \<open>created\<close> and no message delivered. On a
  connection that stays open the Job does end \<open>completed\<close> or \<open>failed\<close>, with a terminal
  message (\<open>open_connection_reaches_terminal\<close>).
\<close>

theorem disconnect_leaves_job_created:
  "valid_request ''https://youtu.be/abc123'' 15
   \<and> websocket_download (sample_env 2097152) ''c1'' ''t1'' ''https://youtu.be/abc123'' 15
        (world0\<lparr>ws_script := [Some WebSocketDisconnect]\<rparr>)
       = (Inr (),
          world0\<lparr>downloads := [''t1'' \<mapsto> created ''https://youtu.be/abc123'' 15 0],
                 ws_closed := True\<rparr>)
   \<and> job_status (created ''https://youtu.be/abc123'' 15 0) = ''created''
   \<and> websocket_download (sample_env 2097152) ''c1'' ''t1'' ''https://youtu.be/abc123'' 15
        (world0\<lparr>ws_script := [Some (Exception ''closed''), Some (Exception ''closed'')]\<rparr>)
       = (Inr (),
          world0\<lparr>downloads := [''t1'' \<mapsto> created ''https://youtu.be/abc123'' 15 0],
                 ws_closed := True\<rparr>)"
proof -
  let ?j = "created ''https://youtu.be/abc123'' 15 0"
  have run: "websocket_download (sample_env 2097152) ''c1'' ''t1'' ''https://youtu.be/abc123'' 15
               (world0\<lparr>ws_script := Some e # rest\<rparr>)
             = (Inr (), on_exit ''c1'' s')"
    if "on_error e (world0\<lparr>active_connections := {''c1''}, downloads := [''t1'' \<mapsto> ?j],
                          ws_script := rest\<rparr>) = (Inr (), s')"
    for e rest s'
  proof -
    let ?s = "world0\<lparr>ws_script := Some e # rest\<rparr>"
    let ?s1 = "create_download_task ''t1'' ''https://youtu.be/abc123'' 15
                 (?s\<lparr>active_connections := insert ''c1'' (active_connections ?s)\<rparr>)"
    have a: "ws_accept ?s = None" by (simp add: world0_def)
    have b: "websocket_body (sample_env 2097152) ''c1'' ''t1'' ''https://youtu.be/abc123'' 15 ?s
               = run_task (sample_env 2097152) ''t1'' ''https://youtu.be/abc123'' 15 ?s1"
      by (rule websocket_body_valid [OF sample_url_valid a])
    have s1: "?s1 = world0\<lparr>active_connections := {''c1''}, downloads := [''t1'' \<mapsto> ?j],
                          ws_script := Some e # rest\<rparr>"
      by (simp add: create_download_task_def created_def world0_def)
    have c: "run_task (sample_env 2097152) ''t1'' ''https://youtu.be/abc123'' 15 ?s1
               = (Inl e, world0\<lparr>active_connections := {''c1''}, downloads := [''t1'' \<mapsto> ?j],
                          ws_script := rest\<rparr>)"
      unfolding s1 by (simp add: run_task_def io_bind_def send_json_def world0_def)
    show ?thesis
      unfolding websocket_download_alt io_finally_def io_try_def b c
      using that by simp
  qed
  have e1: "on_error WebSocketDisconnect s = (Inr (), s)" for s
    by (simp add: on_error_def io_return_def)
  have e2: "on_error (Exception ''closed'')
              (world0\<lparr>active_connections := {''c1''}, downloads := [''t1'' \<mapsto> ?j],
                      ws_script := [Some (Exception ''closed'')]\<rparr>)
            = (Inr (), world0\<lparr>active_connections := {''c1''}, downloads := [''t1'' \<mapsto> ?j],
                      ws_script := []\<rparr>)"
    by (simp add: on_error_def io_try_def io_return_def send_json_def world0_def)
  have "websocket_download (sample_env 2097152) ''c1'' ''t1'' ''https://youtu.be/abc123'' 15
        (world0\<lparr>ws_script := [Some WebSocketDisconnect]\<rparr>)
       = (Inr (), world0\<lparr>downloads := [''t1'' \<mapsto> ?j], ws_closed := True\<rparr>)"
    using run [OF e1, of "[]"]
    by (simp add: on_exit_def world0_def)
  moreover have "websocket_download (sample_env 2097152) ''c1'' ''t1'' ''https://youtu.be/abc123'' 15
        (world0\<lparr>ws_script := [Some (Exception ''closed''), Some (Exception ''closed'')]\<rparr>)
       = (Inr (), world0\<lparr>downloads := [''t1'' \<mapsto> ?j], ws_closed := True\<rparr>)"
    using run [OF e2]
    by (simp add: on_exit_def world0_def)
  ultimately show ?thesis using sample_url_valid by (simp add: created_def)
qed

section \<open>Evaluating sample runs\<close>

lemmas run_defs =
  download_audio_def download_body_def after_download_def
  thumbnail_step_def fetch_thumbnail_def http_download_def extract_info_probe_def
  extract_info_download_def progress_hook_def schedule_send_def send_json_def io_bind_def io_try_def
  io_return_def io_raise_def io_get_def io_modify_def existing_def thumbnail_entry_def
  basename_def rfind_def splitext_def path_join_def DOWNLOAD_FOLDER_def safe_filename_def
  unsafe_chars_def dquote_def backslash_def lower_def lower_char_def
  Let_def suffix_def finish_task_def update_download_def run_task_def

lemma sample_platform: "get_platform_from_url ''https://youtu.be/abc123'' = ''YouTube''"
  by (simp add: get_platform_from_url_def SUPPORTED_PLATFORMS_def lower_def lower_char_def)

lemma round2_2: "round2 (real 2097152 / (1024 * 1024)) = 2"
  by (simp add: round2_def)

lemma success_msg_plain: "progress_of (success_msg task_id p bytes []) = None"
  by (simp add: success_msg_def progress_of_def)

lemma started_msg_progress: "progress_of (started_msg url task_id) = Some 0"
  by (simp add: started_msg_def progress_of_def)

text \<open>
  A run whose body ends in \<open>WebSocketDisconnect\<close>: the handler of line 178 logs, the
  \<^verbatim>\<open>finally\<close> block closes the connection, and nothing touches the Job.
\<close>

lemma websocket_download_disconnected:
  assumes "valid_request url maxsize" and "ws_accept s = None"
    and "run_task env task_id url maxsize
           (create_download_task task_id url maxsize
              (s\<lparr>active_connections := insert connection_id (active_connections s)\<rparr>))
         = (Inl WebSocketDisconnect, s')"
  shows "websocket_download env connection_id task_id url maxsize s
           = (Inr (), on_exit connection_id s')"
proof -
  have b: "websocket_body env connection_id task_id url maxsize s = (Inl WebSocketDisconnect, s')"
    using websocket_body_valid [OF assms(1,2)] assms(3) by simp
  show ?thesis
    unfolding websocket_download_alt io_finally_def io_try_def b
    by (simp add: on_error_def io_return_def)
qed

lemma sample_run:
  "websocket_download (sample_env 2097152) ''c1'' ''t1'' ''https://youtu.be/abc123'' 15 world0
     = (Inr (),
        world0\<lparr>downloads := [''t1'' \<mapsto>
                   completed (created ''https://youtu.be/abc123'' 15 0)
                     (Some ''download/Song.mp3'') None 0],
               files := [''download/Song.mp3'' \<mapsto> 2097152],
               ws_sent :=
                 [started_msg ''https://youtu.be/abc123'' ''t1'',
                  progress_msg 5 Fetching_info,
                  progress_msg 10 (Start_download ''Song''),
                  progress_msg 90 Fetching_thumbnail,
                  progress_msg 95 (Thumbnail_failed (Exception ''timed out'')),
                  progress_msg 100 Ready,
                  success_msg ''t1'' ''download/Song.mp3'' 2097152 []],
               ws_scheduled :=
                 [(3, progress_msg 3 Loading), (3, progress_msg 95 Converting)],
               ws_closed := True\<rparr>)"
proof -
  let ?s1 = "create_download_task ''t1'' ''https://youtu.be/abc123'' 15
               (world0\<lparr>active_connections := insert ''c1'' (active_connections world0)\<rparr>)"
  have a: "ws_accept world0 = None" by (simp add: world0_def)
  have b: "websocket_body (sample_env 2097152) ''c1'' ''t1'' ''https://youtu.be/abc123'' 15 world0
             = run_task (sample_env 2097152) ''t1'' ''https://youtu.be/abc123'' 15 ?s1"
    by (rule websocket_body_valid [OF sample_url_valid a])
  have c: "run_task (sample_env 2097152) ''t1'' ''https://youtu.be/abc123'' 15 ?s1
             = (Inr (),
        world0\<lparr>downloads := [''t1'' \<mapsto>
                   completed (created ''https://youtu.be/abc123'' 15 0)
                     (Some ''download/Song.mp3'') None 0],
               active_connections := {''c1''},
               files := [''download/Song.mp3'' \<mapsto> 2097152],
               ws_sent :=
                 [started_msg ''https://youtu.be/abc123'' ''t1'',
                  progress_msg 5 Fetching_info,
                  progress_msg 10 (Start_download ''Song''),
                  progress_msg 90 Fetching_thumbnail,
                  progress_msg 95 (Thumbnail_failed (Exception ''timed out'')),
                  progress_msg 100 Ready,
                  success_msg ''t1'' ''download/Song.mp3'' 2097152 []],
               ws_scheduled :=
                 [(3, progress_msg 3 Loading), (3, progress_msg 95 Converting)]\<rparr>)"
    by (simp add: run_defs sample_env_def sample_ydl_def sample_info_def world0_def
        create_download_task_def created_def completed_def started_msg_def success_msg_def
        sample_platform round2_2)
  show ?thesis
    unfolding websocket_download_alt io_finally_def io_try_def b c
    by (simp add: on_exit_def world0_def)
qed

text \<open>
  The run of the oversized sample (60 MB against a limit of 15) when the client leaves
  after the message of line 75: the send of line 94 and the one of line 139 raise.
\<close>

lemma oversize_disconnected_run:
  "websocket_download (sample_env 62914560) ''c1'' ''t1'' ''https://youtu.be/abc123'' 15
     (world0\<lparr>ws_script := [None, None, None,
                Some WebSocketDisconnect, Some WebSocketDisconnect]\<rparr>)
     = (Inr (),
        world0\<lparr>downloads := [''t1'' \<mapsto> created ''https://youtu.be/abc123'' 15 0],
               files := Map.empty,
               ws_sent :=
                 [started_msg ''https://youtu.be/abc123'' ''t1'',
                  progress_msg 5 Fetching_info,
                  progress_msg 10 (Start_download ''Song'')],
               ws_scheduled :=
                 [(3, progress_msg 3 Loading), (3, progress_msg 95 Converting)],
               ws_closed := True\<rparr>)"
proof -
  let ?s = "world0\<lparr>ws_script := [None, None, None,
                Some WebSocketDisconnect, Some WebSocketDisconnect]\<rparr>"
  have a: "ws_accept ?s = None" by (simp add: world0_def)
  have c: "run_task (sample_env 62914560) ''t1'' ''https://youtu.be/abc123'' 15
             (create_download_task ''t1'' ''https://youtu.be/abc123'' 15
               (?s\<lparr>active_connections := insert ''c1'' (active_connections ?s)\<rparr>))
             = (Inl WebSocketDisconnect,
        world0\<lparr>downloads := [''t1'' \<mapsto> created ''https://youtu.be/abc123'' 15 0],
               active_connections := {''c1''},
               files := Map.empty,
               ws_sent :=
                 [started_msg ''https://youtu.be/abc123'' ''t1'',
                  progress_msg 5 Fetching_info,
                  progress_msg 10 (Start_download ''Song'')],
               ws_scheduled :=
                 [(3, progress_msg 3 Loading), (3, progress_msg 95 Converting)]\<rparr>)"
    by (simp add: run_defs os_remove_def sample_env_def sample_ydl_def sample_info_def world0_def
        create_download_task_def created_def started_msg_def sample_platform)
  show ?thesis
    unfolding websocket_download_disconnected [OF sample_url_valid a c]
    by (simp add: on_exit_def world0_def)
qed

text \<open>
  The run of the 2 MB sample, whose thumbnail fetch times out, when the client leaves after
  the message of line 100: the send of line 130 and the one of line 139 raise.
\<close>

lemma thumbnail_disconnected_run:
  "websocket_download (sample_env 2097152) ''c1'' ''t1'' ''https://youtu.be/abc123'' 15
     (world0\<lparr>ws_script := [None, None, None, None,
                Some WebSocketDisconnect, Some WebSocketDisconnect]\<rparr>)
     = (Inr (),
        world0\<lparr>downloads := [''t1'' \<mapsto> created ''https://youtu.be/abc123'' 15 0],
               files := [''download/Song.mp3'' \<mapsto> 2097152],
               ws_sent :=
                 [started_msg ''https://youtu.be/abc123'' ''t1'',
                  progress_msg 5 Fetching_info,
                  progress_msg 10 (Start_download ''Song''),
                  progress_msg 90 Fetching_thumbnail],
               ws_scheduled :=
                 [(3, progress_msg 3 Loading), (3, progress_msg 95 Converting)],
               ws_closed := True\<rparr>)"
proof -
  let ?s = "world0\<lparr>ws_script := [None, None, None, None,
                Some WebSocketDisconnect, Some WebSocketDisconnect]\<rparr>"
  have a: "ws_accept ?s = None" by (simp add: world0_def)
  have c: "run_task (sample_env 2097152) ''t1'' ''https://youtu.be/abc123'' 15
             (create_download_task ''t1'' ''https://youtu.be/abc123'' 15
               (?s\<lparr>active_connections := insert ''c1'' (active_connections ?s)\<rparr>))
             = (Inl WebSocketDisconnect,
        world0\<lparr>downloads := [''t1'' \<mapsto> created ''https://youtu.be/abc123'' 15 0],
               active_connections := {''c1''},
               files := [''download/Song.mp3'' \<mapsto> 2097152],
               ws_sent :=
                 [started_msg ''https://youtu.be/abc123'' ''t1'',
                  progress_msg 5 Fetching_info,
                  progress_msg 10 (Start_download ''Song''),
                  progress_msg 90 Fetching_thumbnail],
               ws_scheduled :=
                 [(3, progress_msg 3 Loading), (3, progress_msg 95 Converting)]\<rparr>)"
    by (simp add: run_defs sample_env_def sample_ydl_def sample_info_def world0_def
        create_download_task_def created_def started_msg_def sample_platform)
  show ?thesis
    unfolding websocket_download_disconnected [OF sample_url_valid a c]
    by (simp add: on_exit_def world0_def)
qed

section \<open>Size enforcement and thumbnail failure when the client leaves\<close>

text \<open>
  C6 at a valid request whose extraction leaves a 60 MB mp3 against a limit of 15 MB, the
  client being gone when line 94 reports the oversize: the file has been removed, but the
  send raises, the handler of line 139 raises again, \<open>download_audio\<close> returns nothing, and
  the call ends with the Job still \<open>created\<close>, not \<open>failed\<close>. On a connection that
  stays open the Job does end \<open>failed\<close> with no audio path (\<open>open_connection_oversize\<close>).
\<close>

theorem oversize_disconnect_job_not_failed:
  "valid_request ''https://youtu.be/abc123'' 15
   \<and> artifact (sample_env 62914560) ''https://youtu.be/abc123'' 15
       (world0\<lparr>ws_script := [None, None, None,
                  Some WebSocketDisconnect, Some WebSocketDisconnect]\<rparr>) = Some 62914560
   \<and> real 62914560 / (1024 * 1024) > of_int 15
   \<and> fst (download_audio (sample_env 62914560) ''https://youtu.be/abc123'' Client
            DOWNLOAD_FOLDER 15
            (world0\<lparr>ws_script := [None, None, Some WebSocketDisconnect,
                       Some WebSocketDisconnect]\<rparr>)) = Inl WebSocketDisconnect
   \<and> files (snd (websocket_download (sample_env 62914560) ''c1'' ''t1''
                    ''https://youtu.be/abc123'' 15
                    (world0\<lparr>ws_script := [None, None, None,
                       Some WebSocketDisconnect, Some WebSocketDisconnect]\<rparr>)))
       ''download/Song.mp3'' = None
   \<and> map_option job_status
       (downloads (snd (websocket_download (sample_env 62914560) ''c1'' ''t1''
                    ''https://youtu.be/abc123'' 15
                    (world0\<lparr>ws_script := [None, None, None,
                       Some WebSocketDisconnect, Some WebSocketDisconnect]\<rparr>))) ''t1'')
       = Some ''created''"
proof -
  have a: "artifact (sample_env 62914560) ''https://youtu.be/abc123'' 15
       (world0\<lparr>ws_script := [None, None, None,
                  Some WebSocketDisconnect, Some WebSocketDisconnect]\<rparr>) = Some 62914560"
    by (simp add: artifact_def Let_def sample_ydl_of sample_ydl_fields sample_mp3_path
        world0_def)
  have d: "fst (download_audio (sample_env 62914560) ''https://youtu.be/abc123'' Client
            DOWNLOAD_FOLDER 15
            (world0\<lparr>ws_script := [None, None, Some WebSocketDisconnect,
                       Some WebSocketDisconnect]\<rparr>)) = Inl WebSocketDisconnect"
    by (simp add: run_defs os_remove_def sample_env_def sample_ydl_def sample_info_def
        world0_def)
  show ?thesis
    unfolding oversize_disconnected_run
    using sample_url_valid a d by (simp add: created_def)
qed

text \<open>
  C9 at a valid request whose extraction succeeds (a 2 MB mp3 within the limit of 15 MB)
  and whose thumbnail fetch times out, the client being gone when line 130 reports the
  thumbnail failure: the send raises inside the handler of the thumbnail's \<^verbatim>\<open>try\<close>, the
  handler of line 139 raises again, \<open>download_audio\<close> returns nothing, and the call ends
  with the mp3 in storage and the Job still \<open>created\<close>, not \<open>completed\<close>. On a connection
  that stays open the Job does end \<open>completed\<close> with no thumbnail path and no error
  (\<open>open_connection_thumbnail_failure\<close>).
\<close>

theorem thumbnail_disconnect_job_not_completed:
  "valid_request ''https://youtu.be/abc123'' 15
   \<and> artifact (sample_env 2097152) ''https://youtu.be/abc123'' 15
       (world0\<lparr>ws_script := [None, None, None, None,
                  Some WebSocketDisconnect, Some WebSocketDisconnect]\<rparr>) = Some 2097152
   \<and> \<not> real 2097152 / (1024 * 1024) > of_int 15
   \<and> thumbnail_fails (sample_env 2097152) sample_info
   \<and> fst (download_audio (sample_env 2097152) ''https://youtu.be/abc123'' Client
            DOWNLOAD_FOLDER 15
            (world0\<lparr>ws_script := [None, None, None, Some WebSocketDisconnect,
                       Some WebSocketDisconnect]\<rparr>)) = Inl WebSocketDisconnect
   \<and> files (snd (websocket_download (sample_env 2097152) ''c1'' ''t1''
                    ''https://youtu.be/abc123'' 15
                    (world0\<lparr>ws_script := [None, None, None, None,
                       Some WebSocketDisconnect, Some WebSocketDisconnect]\<rparr>)))
       ''download/Song.mp3'' = Some 2097152
   \<and> map_option job_status
       (downloads (snd (websocket_download (sample_env 2097152) ''c1'' ''t1''
                    ''https://youtu.be/abc123'' 15
                    (world0\<lparr>ws_script := [None, None, None, None,
                       Some WebSocketDisconnect, Some WebSocketDisconnect]\<rparr>))) ''t1'')
       = Some ''created''"
proof -
  have a: "artifact (sample_env 2097152) ''https://youtu.be/abc123'' 15
       (world0\<lparr>ws_script := [None, None, None, None,
                  Some WebSocketDisconnect, Some WebSocketDisconnect]\<rparr>) = Some 2097152"
    by (simp add: artifact_def Let_def sample_ydl_of sample_ydl_fields sample_mp3_path
        world0_def)
  have d: "fst (download_audio (sample_env 2097152) ''https://youtu.be/abc123'' Client
            DOWNLOAD_FOLDER 15
            (world0\<lparr>ws_script := [None, None, None, Some WebSocketDisconnect,
                       Some WebSocketDisconnect]\<rparr>)) = Inl WebSocketDisconnect"
    by (simp add: run_defs sample_env_def sample_ydl_def sample_info_def world0_def)
  show ?thesis
    unfolding thumbnail_disconnected_run
    using sample_url_valid a d sample_thumbnail_fails [of 2097152] by (simp add: created_def)
qed

section \<open>The progress sequence\<close>



text \<open>
  The sample run as the client sees it. The callbacks' sends (3 and 95) are scheduled
  after the third message, so the event loop can run them once the handler has suspended
  in its fourth send or a later one. Wherever it does, the relayed 3 comes after the
  handler's 10: no schedule that delivers them gives a non-decreasing sequence.
\<close>

lemma sample_may_run_at:
  "may_run_at k (snd (websocket_download (sample_env 2097152) ''c1'' ''t1''
                        ''https://youtu.be/abc123'' 15 world0)) \<longleftrightarrow> 3 < k \<and> k \<le> 7"
  unfolding sample_run may_run_at_def by auto

lemma sample_client_view:
  "progresses (client_view 4 (snd (websocket_download (sample_env 2097152) ''c1'' ''t1''
                        ''https://youtu.be/abc123'' 15 world0)))
     = [0, 5, 10, 90, 3, 95, 95, 100]"
  "progresses (client_view 5 (snd (websocket_download (sample_env 2097152) ''c1'' ''t1''
                        ''https://youtu.be/abc123'' 15 world0)))
     = [0, 5, 10, 90, 95, 3, 95, 100]"
  "progresses (client_view 6 (snd (websocket_download (sample_env 2097152) ''c1'' ''t1''
                        ''https://youtu.be/abc123'' 15 world0)))
     = [0, 5, 10, 90, 95, 100, 3, 95]"
  "progresses (client_view 7 (snd (websocket_download (sample_env 2097152) ''c1'' ''t1''
                        ''https://youtu.be/abc123'' 15 world0)))
     = [0, 5, 10, 90, 95, 100, 3, 95]"
  unfolding sample_run client_view_def
  by (simp_all add: progresses_Cons success_msg_plain started_msg_progress)

lemma sample_every_schedule_decreases:
  assumes "may_run_at k (snd (websocket_download (sample_env 2097152) ''c1'' ''t1''
                        ''https://youtu.be/abc123'' 15 world0))"
  shows "\<not> sorted (progresses (client_view k
            (snd (websocket_download (sample_env 2097152) ''c1'' ''t1''
                        ''https://youtu.be/abc123'' 15 world0))))"
proof -
  have "k = 4 \<or> k = 5 \<or> k = 6 \<or> k = 7" using assms unfolding sample_may_run_at by arith
  then show ?thesis
    by (elim disjE) (simp_all only: sample_client_view, simp_all)
qed


end
